theory Spec2Isabelle
  imports Complex_Main
begin

section \<open>Conventions of the embedding\<close>

text \<open>
  The program is Python. Its unbounded integers are modelled as \<^typ>\<open>int\<close>; its floats
  are modelled as \<^typ>\<open>real\<close>, so every comparison and every arithmetic operation
  is the exact one; the rounding of IEEE doubles is modelled in one place only, the sum
  in \<open>should_reannounce\<close> on which the reachability of a branch depends, where the
  machine's sum is a parameter. Objects are records,
  mutation is explicit state passing, and values read from collaborators (the wall
  clock, the BitTorrent client) are parameters of the functions that read them.
\<close>

section \<open>The program\<close>

subsection \<open>Helpers of \<open>speed_limiting_engine.py\<close>\<close>

definition safe_div :: "real \<Rightarrow> real \<Rightarrow> real \<Rightarrow> real" where
  "safe_div a b dflt =
     (if b = 0 \<or> \<bar>b\<bar> < 1 / 10 ^ 10 then dflt else a / b)"

definition clamp :: "'a::linorder \<Rightarrow> 'a \<Rightarrow> 'a \<Rightarrow> 'a" where
  "clamp v min_val max_val = max min_val (min max_val v)"

text \<open>Python's \<open>int(x)\<close> on a float truncates towards zero.\<close>

definition py_int :: "real \<Rightarrow> int" where
  "py_int x = (if 0 \<le> x then \<lfloor>x\<rfloor> else \<lceil>x\<rceil>)"

subsection \<open>Phases and tuning\<close>

text \<open>
  The phase is one of the four string constants \<open>LimitConfig.PHASE_*\<close>; every phase
  value the engine produces comes from \<open>TorrentLimitState.get_phase\<close>, which returns
  one of them.
\<close>

datatype phase = Warmup | Catch | Steady | Finish

record pid_gains =
  g_kp :: real
  g_ki :: real
  g_kd :: real
  g_headroom :: real

text \<open>
  \<open>EngineTuning\<close>. The two dictionaries are keyed by phase and hold all four phases in
  the only tuning the engine builds, so they are total functions here and the defaults
  of their \<open>.get\<close> calls are not reachable.
\<close>

record engine_tuning =
  pid_params :: "phase \<Rightarrow> pid_gains"
  min_limit :: int
  quant_steps :: "phase \<Rightarrow> int"
  kalman_q_speed :: real
  kalman_q_accel :: real
  kalman_r :: real

definition MIN_LIMIT :: int where
  "MIN_LIMIT = 4096"

fun engine_pid_params :: "phase \<Rightarrow> pid_gains" where
  "engine_pid_params Warmup = \<lparr>g_kp = 0.3, g_ki = 0.05, g_kd = 0.02, g_headroom = 1.03\<rparr>"
| "engine_pid_params Catch = \<lparr>g_kp = 0.5, g_ki = 0.10, g_kd = 0.05, g_headroom = 1.02\<rparr>"
| "engine_pid_params Steady = \<lparr>g_kp = 0.6, g_ki = 0.15, g_kd = 0.08, g_headroom = 1.005\<rparr>"
| "engine_pid_params Finish = \<lparr>g_kp = 0.8, g_ki = 0.20, g_kd = 0.12, g_headroom = 1.001\<rparr>"

fun engine_quant_steps :: "phase \<Rightarrow> int" where
  "engine_quant_steps Finish = 256"
| "engine_quant_steps Steady = 512"
| "engine_quant_steps Catch = 2048"
| "engine_quant_steps Warmup = 4096"

text \<open>The tuning built in \<open>PrecisionLimitEngine.__init__\<close>.\<close>

definition engine_tuning :: engine_tuning where
  "engine_tuning =
     \<lparr>pid_params = engine_pid_params, min_limit = MIN_LIMIT,
      quant_steps = engine_quant_steps,
      kalman_q_speed = 0.1, kalman_q_accel = 0.05, kalman_r = 0.5\<rparr>"

subsection \<open>\<open>AdaptiveQuantizer.quantize\<close>\<close>

definition quantize_step :: "phase \<Rightarrow> real \<Rightarrow> real \<Rightarrow> engine_tuning \<Rightarrow> real \<Rightarrow> int" where
  "quantize_step ph current_speed target tuning trend =
     (let base = quant_steps tuning ph;
          ratio = safe_div current_speed target 1;
          step = (if ph = Finish then 256
                  else if ratio > 1.2 then base * 2
                  else if ratio > 1.05 then base
                  else if ratio > 0.8 then base div 2
                  else base);
          step = (if \<bar>trend\<bar> > 0.1 then max 256 (step div 2) else step)
      in clamp step 256 8192)"

definition quantize :: "int \<Rightarrow> phase \<Rightarrow> real \<Rightarrow> real \<Rightarrow> engine_tuning \<Rightarrow> real \<Rightarrow> int" where
  "quantize limit ph current_speed target tuning trend =
     (if limit \<le> 0 then limit
      else (let step = quantize_step ph current_speed target tuning trend
            in max (min_limit tuning) (((limit + step div 2) div step) * step)))"

subsection \<open>\<open>PIDController\<close>\<close>

record pid_controller =
  kp :: real
  ki :: real
  kd :: real
  integral :: real
  last_error :: real
  pid_last_time :: real
  last_output :: real
  pid_initialized :: bool
  integral_limit :: real
  derivative_filter :: real

definition pid_new :: pid_controller where
  "pid_new =
     \<lparr>kp = 0.6, ki = 0.15, kd = 0.08, integral = 0, last_error = 0, pid_last_time = 0,
      last_output = 1, pid_initialized = False, integral_limit = 0.3,
      derivative_filter = 0\<rparr>"

definition pid_set_phase :: "pid_controller \<Rightarrow> phase \<Rightarrow> (phase \<Rightarrow> pid_gains) \<Rightarrow> pid_controller" where
  "pid_set_phase c ph params =
     c\<lparr>kp := g_kp (params ph), ki := g_ki (params ph), kd := g_kd (params ph)\<rparr>"

text \<open>\<open>update\<close> returns its output together with the controller after the call.\<close>

definition pid_update :: "pid_controller \<Rightarrow> real \<Rightarrow> real \<Rightarrow> real \<Rightarrow> real \<times> pid_controller" where
  "pid_update c target actual now =
     (let error = safe_div (target - actual) (max target 1) 0 in
      if \<not> pid_initialized c then
        (1, c\<lparr>last_error := error, pid_last_time := now, pid_initialized := True\<rparr>)
      else
        (let dt = now - pid_last_time c in
         if dt \<le> 0.01 then (last_output c, c)
         else
           (let p_term = kp c * error;
                integral' = clamp (integral c + error * dt) (- integral_limit c) (integral_limit c);
                i_term = ki c * integral';
                raw_derivative = (error - last_error c) / dt;
                derivative_filter' = 0.3 * raw_derivative + 0.7 * derivative_filter c;
                d_term = kd c * derivative_filter';
                output = clamp (1 + p_term + i_term + d_term) 0.5 2
            in (output,
                c\<lparr>pid_last_time := now, integral := integral',
                  derivative_filter := derivative_filter', last_error := error,
                  last_output := output\<rparr>))))"

definition pid_reset :: "pid_controller \<Rightarrow> pid_controller" where
  "pid_reset c =
     c\<lparr>integral := 0, last_error := 0, pid_last_time := 0, last_output := 1,
       derivative_filter := 0, pid_initialized := False\<rparr>"

text \<open>
  A sequence of \<open>update\<close> calls: the list of (output, controller after the call), one
  entry for each input (target, actual, now).
\<close>

fun pid_trace :: "pid_controller \<Rightarrow> (real \<times> real \<times> real) list \<Rightarrow> (real \<times> pid_controller) list" where
  "pid_trace c [] = []"
| "pid_trace c ((target, actual, now) # xs) =
     (let r = pid_update c target actual now in r # pid_trace (snd r) xs)"

subsection \<open>\<open>ExtendedKalman\<close>\<close>

record kalman =
  speed :: real
  accel :: real
  p00 :: real
  p01 :: real
  p10 :: real
  p11 :: real
  k_last_time :: real
  k_initialized :: bool
  q_speed :: real
  q_accel :: real
  r_noise :: real

definition kalman_new :: "real \<Rightarrow> real \<Rightarrow> real \<Rightarrow> kalman" where
  "kalman_new qs qa rn =
     \<lparr>speed = 0, accel = 0, p00 = 1000, p01 = 0, p10 = 0, p11 = 1000, k_last_time = 0,
      k_initialized = False, q_speed = qs, q_accel = qa, r_noise = rn\<rparr>"

text \<open>\<open>update\<close> returns the pair (speed, accel) together with the filter after the call.\<close>

definition kalman_update :: "kalman \<Rightarrow> real \<Rightarrow> real \<Rightarrow> (real \<times> real) \<times> kalman" where
  "kalman_update k measurement now =
     (if \<not> k_initialized k then
        ((measurement, 0), k\<lparr>speed := measurement, k_last_time := now, k_initialized := True\<rparr>)
      else
        (let dt = now - k_last_time k in
         if dt \<le> 0.01 then ((speed k, accel k), k)
         else
           (let pred_speed = speed k + accel k * dt;
                p00_pred = p00 k + dt * (p10 k + p01 k) + dt * dt * p11 k + q_speed k;
                p01_pred = p01 k + dt * p11 k;
                p10_pred = p10 k + dt * p11 k;
                p11_pred = p11 k + q_accel k;
                s = p00_pred + r_noise k
            in if \<bar>s\<bar> < 1 / 10 ^ 10 then ((speed k, accel k), k\<lparr>k_last_time := now\<rparr>)
               else
                 (let k0 = p00_pred / s;
                      k1 = p10_pred / s;
                      innovation = measurement - pred_speed;
                      speed' = pred_speed + k0 * innovation;
                      accel' = accel k + k1 * innovation
                  in ((speed', accel'),
                      k\<lparr>k_last_time := now, speed := speed', accel := accel',
                        p00 := (1 - k0) * p00_pred, p01 := (1 - k0) * p01_pred,
                        p10 := - k1 * p00_pred + p10_pred,
                        p11 := - k1 * p01_pred + p11_pred\<rparr>)))))"

definition predict_upload :: "kalman \<Rightarrow> real \<Rightarrow> real" where
  "predict_upload k time_left =
     max 0 (speed k * time_left + 0.5 * accel k * time_left * time_left)"

definition kalman_reset :: "kalman \<Rightarrow> kalman" where
  "kalman_reset k =
     k\<lparr>speed := 0, accel := 0, p00 := 1000, p01 := 0, p10 := 0, p11 := 1000,
       k_last_time := 0, k_initialized := False\<rparr>"

text \<open>Feeding a sequence of (measurement, now) pairs to \<open>update\<close>.\<close>

fun kalman_run :: "kalman \<Rightarrow> (real \<times> real) list \<Rightarrow> kalman" where
  "kalman_run k [] = k"
| "kalman_run k ((m, now) # xs) = kalman_run (snd (kalman_update k m now)) xs"

subsection \<open>\<open>PrecisionTracker\<close>\<close>

text \<open>\<open>deque(maxlen = n).append\<close>: a full deque drops its oldest element.\<close>

definition deque_append :: "nat \<Rightarrow> 'a list \<Rightarrow> 'a \<Rightarrow> 'a list" where
  "deque_append maxlen xs x = (let ys = xs @ [x] in drop (length ys - maxlen) ys)"

record precision_tracker =
  history :: "(real \<times> phase \<times> real) list"
  history_maxlen :: nat
  phase_adj :: "phase \<Rightarrow> real"
  global_adj :: real

definition precision_tracker_new :: "nat \<Rightarrow> precision_tracker" where
  "precision_tracker_new window =
     \<lparr>history = [], history_maxlen = window, phase_adj = (\<lambda>_. 1), global_adj = 1\<rparr>"

text \<open>The module-level instance \<open>precision_tracker = PrecisionTracker()\<close>.\<close>

definition precision_tracker_global :: precision_tracker where
  "precision_tracker_global = precision_tracker_new 30"

text \<open>
  The keys of \<open>phase_data\<close> in insertion order (the order of first appearance in the
  history), and the ratios collected under one key.
\<close>

fun phase_keys :: "(real \<times> phase \<times> real) list \<Rightarrow> phase list \<Rightarrow> phase list" where
  "phase_keys [] seen = seen"
| "phase_keys ((ratio, ph, t) # hs) seen =
     phase_keys hs (if ph \<in> set seen then seen else seen @ [ph])"

definition phase_ratios :: "(real \<times> phase \<times> real) list \<Rightarrow> phase \<Rightarrow> real list" where
  "phase_ratios hist ph = map fst (filter (\<lambda>(ratio, p, t). p = ph) hist)"

definition phase_factor :: "real \<Rightarrow> real" where
  "phase_factor avg =
     (if avg > 1.005 then 0.998
      else if avg > 1.001 then 0.999
      else if avg < 0.99 then 1.002
      else if avg < 0.995 then 1.001
      else 1)"

definition update_phase :: "(real \<times> phase \<times> real) list \<Rightarrow> (phase \<Rightarrow> real) \<Rightarrow> phase \<Rightarrow> (phase \<Rightarrow> real)" where
  "update_phase hist adj ph =
     (let ratios = phase_ratios hist ph in
      if length ratios < 3 then adj
      else (let avg = sum_list ratios / real (length ratios)
            in adj(ph := clamp (adj ph * phase_factor avg) 0.92 1.08)))"

definition tracker_update :: "precision_tracker \<Rightarrow> precision_tracker" where
  "tracker_update tr =
     (if length (history tr) < 5 then tr
      else
        (let adj' = foldl (update_phase (history tr)) (phase_adj tr) (phase_keys (history tr) []);
             all_ratios = map fst (history tr);
             global_avg = sum_list all_ratios / real (length all_ratios);
             g' = (if global_avg > 1.002 then clamp (global_adj tr * 0.999) 0.95 1.05
                   else if global_avg < 0.995 then clamp (global_adj tr * 1.001) 0.95 1.05
                   else global_adj tr)
         in tr\<lparr>phase_adj := adj', global_adj := g'\<rparr>))"

definition tracker_record :: "precision_tracker \<Rightarrow> real \<Rightarrow> phase \<Rightarrow> real \<Rightarrow> precision_tracker" where
  "tracker_record tr ratio ph now =
     tracker_update (tr\<lparr>history := deque_append (history_maxlen tr) (history tr) (ratio, ph, now)\<rparr>)"

definition get_adjustment :: "precision_tracker \<Rightarrow> phase \<Rightarrow> real" where
  "get_adjustment tr ph = phase_adj tr ph * global_adj tr"

fun tracker_run :: "precision_tracker \<Rightarrow> (real \<times> phase \<times> real) list \<Rightarrow> precision_tracker" where
  "tracker_run tr [] = tr"
| "tracker_run tr ((ratio, ph, now) # xs) = tracker_run (tracker_record tr ratio ph now) xs"

subsection \<open>\<open>MultiWindowSpeedTracker\<close>\<close>

text \<open>The samples are pairs (time, speed) in a deque of at most 1200 entries.\<close>

type_synonym mw_samples = "(real \<times> real) list"

definition mw_record :: "mw_samples \<Rightarrow> real \<Rightarrow> real \<Rightarrow> mw_samples" where
  "mw_record samples now spd = deque_append 1200 samples (now, spd)"

fun mw_weights :: "phase \<Rightarrow> (int \<times> real) list" where
  "mw_weights Warmup = [(5, 0.1), (15, 0.2), (30, 0.3), (60, 0.4)]"
| "mw_weights Catch = [(5, 0.2), (15, 0.3), (30, 0.3), (60, 0.2)]"
| "mw_weights Steady = [(5, 0.3), (15, 0.3), (30, 0.2), (60, 0.2)]"
| "mw_weights Finish = [(5, 0.5), (15, 0.3), (30, 0.15), (60, 0.05)]"

text \<open>
  One round of the loop over the windows; the accumulator is the pair
  (\<open>weighted_sum\<close>, \<open>total_weight\<close>).
\<close>

definition mw_window_step ::
  "(int \<times> real) list \<Rightarrow> mw_samples \<Rightarrow> real \<Rightarrow> real \<times> real \<Rightarrow> int \<Rightarrow> real \<times> real" where
  "mw_window_step weights samples now acc window =
     (let win_samples = map snd (filter (\<lambda>(t, s). now - t \<le> real_of_int window) samples) in
      if win_samples \<noteq> [] then
        (let avg = sum_list win_samples / real (length win_samples);
             weight = (case map_of weights window of Some w \<Rightarrow> w | None \<Rightarrow> 0.25)
         in (fst acc + avg * weight, snd acc + weight))
      else acc)"

definition get_weighted_avg :: "mw_samples \<Rightarrow> real \<Rightarrow> phase \<Rightarrow> real" where
  "get_weighted_avg samples now ph =
     (let acc = foldl (mw_window_step (mw_weights ph) samples now) (0, 0) [5, 15, 30, 60];
          weighted_sum = fst acc;
          total_weight = snd acc
      in if total_weight > 0 then weighted_sum / total_weight else 0)"

definition get_recent_trend :: "mw_samples \<Rightarrow> real \<Rightarrow> real \<Rightarrow> real" where
  "get_recent_trend samples now window =
     (let ss = map snd (filter (\<lambda>(t, s). now - t \<le> window) samples) in
      if length ss < 5 then 0
      else
        (let mid = length ss div 2;
             first = sum_list (take mid ss) / real mid;
             second = sum_list (drop mid ss) / real (length ss - mid)
         in safe_div (second - first) first 0))"

subsection \<open>\<open>PrecisionLimitController\<close>\<close>

text \<open>
  The fields \<open>tuning\<close>, \<open>kalman\<close>, \<open>speed_tracker\<close>, \<open>pid\<close> and
  \<open>_smooth_limit\<close> of the class, prefixed with \<open>lc_\<close>.
\<close>

record controller =
  lc_tuning :: engine_tuning
  lc_kalman :: kalman
  lc_speed_tracker :: mw_samples
  lc_pid :: pid_controller
  lc_smooth_limit :: int

definition controller_new :: "engine_tuning \<Rightarrow> controller" where
  "controller_new tn =
     \<lparr>lc_tuning = tn,
      lc_kalman = kalman_new (kalman_q_speed tn) (kalman_q_accel tn) (kalman_r tn),
      lc_speed_tracker = [], lc_pid = pid_new, lc_smooth_limit = - 1\<rparr>"

definition record_speed :: "controller \<Rightarrow> real \<Rightarrow> real \<Rightarrow> controller" where
  "record_speed c now spd =
     c\<lparr>lc_kalman := snd (kalman_update (lc_kalman c) spd now),
       lc_speed_tracker := mw_record (lc_speed_tracker c) now spd\<rparr>"

definition controller_reset :: "controller \<Rightarrow> controller" where
  "controller_reset c =
     c\<lparr>lc_kalman := kalman_reset (lc_kalman c), lc_speed_tracker := [], lc_pid := pid_reset (lc_pid c),
       lc_smooth_limit := - 1\<rparr>"

text \<open>
  The reason strings of \<open>calculate\<close>. Most are Chinese literals and some embed a
  formatted number, so a reason is a constructor here, carrying the number that the
  source formats into the string: \<open>R_announcing\<close> is the literal returned at the
  announce boundary, \<open>R_finish\<close>, \<open>R_steady\<close> and \<open>R_catch\<close> carry the required
  speed, \<open>R_catch_release\<close> is the catch branch giving up, and the four \<open>R_warm\<close>
  reasons are the warm-up branches (\<open>R_warm_over\<close> carries the progress).
\<close>

datatype ctrl_reason =
  R_announcing
| R_finish real
| R_steady real
| R_catch_release
| R_catch real
| R_warm_over real
| R_warm_precise
| R_warm_moderate
| R_warm_preheat

text \<open>The \<open>debug\<close> dictionary: a key that has not been written is \<open>None\<close>.\<close>

record debug =
  predicted_ratio :: "real option"
  required_speed :: "real option"
  pid_output :: "real option"
  final_limit :: "int option"

definition debug_empty :: debug where
  "debug_empty = \<lparr>predicted_ratio = None, required_speed = None, pid_output = None,
                   final_limit = None\<rparr>"

definition smooth :: "controller \<Rightarrow> int \<Rightarrow> phase \<Rightarrow> int \<times> controller" where
  "smooth c new_limit ph =
     (if new_limit \<le> 0 \<or> lc_smooth_limit c \<le> 0 \<or> ph = Finish then
        (new_limit, c\<lparr>lc_smooth_limit := new_limit\<rparr>)
      else
        (let change = real_of_int \<bar>new_limit - lc_smooth_limit c\<bar> / real_of_int (lc_smooth_limit c);
             s' = (if change < 0.2 then new_limit
                   else (let factor = (if change \<ge> 0.5 then 0.5 else 0.3)
                         in py_int ((1 - factor) * real_of_int (lc_smooth_limit c)
                                    + factor * real_of_int new_limit)))
         in (s', c\<lparr>lc_smooth_limit := s'\<rparr>)))"

definition finish_correction :: "real \<Rightarrow> real" where
  "finish_correction pred =
     (if pred > 1.002 then max 0.8 (1 - (pred - 1) * 3)
      else if pred < 0.998 then min 1.2 (1 + (1 - pred) * 3)
      else 1)"

text \<open>
  \<open>calculate\<close> returns (limit, reason, debug) together with the controller after the
  call. The early return at \<open>time_left <= 0\<close> comes before the PID controller is
  touched.
\<close>

definition calculate ::
  "controller \<Rightarrow> real \<Rightarrow> int \<Rightarrow> real \<Rightarrow> real \<Rightarrow> phase \<Rightarrow> real \<Rightarrow> real
     \<Rightarrow> (int \<times> ctrl_reason \<times> debug) \<times> controller" where
  "calculate c target uploaded time_left elapsed ph now precision_adj =
     (let adjusted_target = target * precision_adj;
          kalman_speed = speed (lc_kalman c);
          weighted_speed = get_weighted_avg (lc_speed_tracker c) now ph;
          trend = get_recent_trend (lc_speed_tracker c) now 10;
          current_speed = (if ph = Finish \<and> weighted_speed > 0 then weighted_speed
                           else if kalman_speed > 0 then kalman_speed else weighted_speed);
          total_time = elapsed + time_left;
          target_total = adjusted_target * total_time;
          pred = safe_div (real_of_int uploaded + predict_upload (lc_kalman c) time_left)
                   target_total 0;
          dbg = debug_empty\<lparr>predicted_ratio := Some pred\<rparr>;
          need = max 0 (target_total - real_of_int uploaded)
      in if time_left \<le> 0 then ((- 1, R_announcing, dbg), c)
         else
           (let required = need / time_left;
                dbg = dbg\<lparr>required_speed := Some required\<rparr>;
                pu = pid_update (pid_set_phase (lc_pid c) ph (pid_params (lc_tuning c)))
                       target_total (real_of_int uploaded) now;
                pid_out = fst pu;
                c = c\<lparr>lc_pid := snd pu\<rparr>;
                dbg = dbg\<lparr>pid_output := Some pid_out\<rparr>;
                headroom = g_headroom (pid_params (lc_tuning c) ph);
                lr = (case ph of
                        Finish \<Rightarrow>
                          (py_int (required * pid_out * finish_correction pred), R_finish required)
                      | Steady \<Rightarrow>
                          (let headroom = (if pred > 1.01 then 1 else headroom)
                           in (py_int (required * headroom * pid_out), R_steady required))
                      | Catch \<Rightarrow>
                          (if required > adjusted_target * 5 then (- 1, R_catch_release)
                           else (py_int (required * headroom * pid_out), R_catch required))
                      | Warmup \<Rightarrow>
                          (let progress = safe_div (real_of_int uploaded) target_total 0 in
                           if progress \<ge> 1 then (min_limit (lc_tuning c), R_warm_over progress)
                           else if progress \<ge> 0.8 then
                             (py_int (required * 1.01 * pid_out), R_warm_precise)
                           else if progress \<ge> 0.5 then
                             (py_int (required * 1.05), R_warm_moderate)
                           else (- 1, R_warm_preheat)));
                limit = fst lr;
                reason = snd lr;
                limit = (if limit > 0
                         then quantize limit ph current_speed adjusted_target (lc_tuning c) trend
                         else limit);
                sm = smooth c limit ph;
                dbg = dbg\<lparr>final_limit := Some (fst sm)\<rparr>
            in ((fst sm, reason, dbg), snd sm)))"


subsection \<open>\<open>LimitConfig\<close>\<close>

text \<open>
  \<open>SPEED_LIMIT\<close> is the integer \<open>50 * 1024 * 1024\<close>; every use of it is in float
  arithmetic, so it is a real here.
\<close>

definition SPEED_LIMIT :: real where
  "SPEED_LIMIT = 50 * 1024 * 1024"

definition PROGRESS_PROTECT :: real where
  "PROGRESS_PROTECT = 0.90"

definition MAX_REANNOUNCE :: real where
  "MAX_REANNOUNCE = 86400"

definition ANNOUNCE_INTERVAL_NEW :: int where
  "ANNOUNCE_INTERVAL_NEW = 1800"

definition ANNOUNCE_INTERVAL_WEEK :: int where
  "ANNOUNCE_INTERVAL_WEEK = 2700"

definition ANNOUNCE_INTERVAL_OLD :: int where
  "ANNOUNCE_INTERVAL_OLD = 3600"

definition DL_LIMIT_MIN_TIME :: real where
  "DL_LIMIT_MIN_TIME = 20"

definition DL_LIMIT_BUFFER :: real where
  "DL_LIMIT_BUFFER = 30"

definition DL_LIMIT_MIN :: int where
  "DL_LIMIT_MIN = 512"

definition DL_LIMIT_ADJUST_BUFFER :: real where
  "DL_LIMIT_ADJUST_BUFFER = 60"

definition REANNOUNCE_WAIT_LIMIT :: int where
  "REANNOUNCE_WAIT_LIMIT = 5120"

definition REANNOUNCE_MIN_INTERVAL :: real where
  "REANNOUNCE_MIN_INTERVAL = 900"

definition REANNOUNCE_SPEED_SAMPLES :: real where
  "REANNOUNCE_SPEED_SAMPLES = 300"

definition estimate_announce_interval :: "real option \<Rightarrow> real \<Rightarrow> int" where
  "estimate_announce_interval time_ref now =
     (case time_ref of
        None \<Rightarrow> ANNOUNCE_INTERVAL_NEW
      | Some r \<Rightarrow>
          if r = 0 then ANNOUNCE_INTERVAL_NEW
          else (let age = max 0 (now - r) in
                if age < 7 * 86400 then ANNOUNCE_INTERVAL_NEW
                else if age < 30 * 86400 then ANNOUNCE_INTERVAL_WEEK
                else ANNOUNCE_INTERVAL_OLD))"

subsection \<open>\<open>SpeedTracker\<close>\<close>

text \<open>
  The samples are triples (time, upload speed, download speed) in a deque of at most
  3600 entries. \<open>get_avg_speeds\<close> reads the wall clock itself; the reading is the
  parameter \<open>clock\<close>.
\<close>

type_synonym speed_samples = "(real \<times> real \<times> real) list"

definition st_record_speed :: "speed_samples \<Rightarrow> real \<Rightarrow> real \<Rightarrow> real \<Rightarrow> speed_samples" where
  "st_record_speed samples up_speed dl_speed now =
     deque_append 3600 samples (now, up_speed, dl_speed)"

definition get_avg_speeds :: "speed_samples \<Rightarrow> real \<Rightarrow> real \<Rightarrow> real \<times> real" where
  "get_avg_speeds samples clock window =
     (let relevant = map snd (filter (\<lambda>(t, u, d). clock - t \<le> window) samples) in
      if relevant = [] then (0, 0)
      else (sum_list (map fst relevant) / real (length relevant),
            sum_list (map snd relevant) / real (length relevant)))"

subsection \<open>\<open>TorrentLimitState\<close>\<close>

text \<open>The source's variable \<open>tl\<close> (time left to the next announce) is \<open>tleft\<close> here.\<close>

text \<open>
  The fields of the dataclass that the modelled methods read or write. Fields that only
  the site helpers and the notifier use (\<open>tracker\<close>, \<open>promotion\<close>, the tid search and
  peer list bookkeeping, \<open>monitor_notified\<close>, \<open>last_props\<close>, \<open>reannounce_source\<close>)
  are left out.
\<close>

record torrent_state =
  hash :: string
  name :: string
  instance_id :: "int option"
  cycle_start :: real
  cycle_uploaded_start :: int
  cycle_index :: int
  cycle_synced :: bool
  cycle_interval :: real
  jump_count :: int
  last_jump :: real
  cached_time_left :: real
  cache_ts :: real
  prev_time_left :: real
  last_announce_time :: "real option"
  site_id :: "int option"
  tid :: "int option"
  publish_time :: "real option"
  target_speed :: int
  last_limit :: int
  last_limit_reason :: string
  last_dl_limit :: int
  dl_limited_this_cycle :: bool
  last_reannounce :: real
  waiting_reannounce :: bool
  reannounced_this_cycle :: bool
  session_start_time :: real
  total_uploaded_start :: int
  total_size :: int
  time_added :: real
  limit_controller :: "controller option"
  speed_tracker :: speed_samples
  last_debug :: "debug option"

text \<open>\<open>TorrentLimitState(hash=h)\<close>: the defaults of the dataclass.\<close>

definition torrent_state_new :: "string \<Rightarrow> torrent_state" where
  "torrent_state_new h =
     \<lparr>hash = h, name = [], instance_id = None,
      cycle_start = 0, cycle_uploaded_start = 0, cycle_index = 0, cycle_synced = False,
      cycle_interval = 0, jump_count = 0, last_jump = 0,
      cached_time_left = 0, cache_ts = 0, prev_time_left = 0, last_announce_time = None,
      site_id = None, tid = None, publish_time = None,
      target_speed = 0, last_limit = - 2, last_limit_reason = [], last_dl_limit = - 1,
      dl_limited_this_cycle = False,
      last_reannounce = 0, waiting_reannounce = False, reannounced_this_cycle = False,
      session_start_time = 0, total_uploaded_start = 0, total_size = 0, time_added = 0,
      limit_controller = None, speed_tracker = [], last_debug = None\<rparr>"

definition get_phase :: "torrent_state \<Rightarrow> real \<Rightarrow> phase" where
  "get_phase st tleft =
     (if \<not> cycle_synced st then Warmup
      else if tleft < 10 then Finish
      else if tleft < 60 then Catch
      else Steady)"

text \<open>
  \<open>publish_time or (time_added if time_added > 0 else None)\<close>: a \<open>None\<close> or zero
  publish time is falsy.
\<close>

definition get_announce_interval :: "torrent_state \<Rightarrow> real \<Rightarrow> int" where
  "get_announce_interval st now =
     (let ref = (case publish_time st of
                   Some p \<Rightarrow> if p \<noteq> 0 then Some p
                             else if time_added st > 0 then Some (time_added st) else None
                 | None \<Rightarrow> if time_added st > 0 then Some (time_added st) else None)
      in estimate_announce_interval ref now)"

definition this_time :: "torrent_state \<Rightarrow> real \<Rightarrow> real" where
  "this_time st now = max 0 (now - cycle_start st)"

definition this_up :: "torrent_state \<Rightarrow> int \<Rightarrow> int" where
  "this_up st total_uploaded = max 0 (total_uploaded - cycle_uploaded_start st)"

definition estimate_total :: "torrent_state \<Rightarrow> real \<Rightarrow> real \<Rightarrow> real" where
  "estimate_total st now tleft =
     (let e = now - cycle_start st in
      if 0 < tleft \<and> tleft < MAX_REANNOUNCE then max 1 (e + tleft)
      else if cycle_synced st \<and> cycle_interval st > 0 then max 1 (cycle_interval st)
      else max 1 e)"

definition new_cycle :: "torrent_state \<Rightarrow> real \<Rightarrow> int \<Rightarrow> real \<Rightarrow> bool \<Rightarrow> torrent_state" where
  "new_cycle st now uploaded tleft is_jump =
     (let st =
        (if is_jump then
           (let st = st\<lparr>jump_count := jump_count st + 1\<rparr>;
                st = (if last_jump st > 0 then
                        (let interval = now - last_jump st in
                         if interval > 60 then
                           (let st = st\<lparr>cycle_interval := interval\<rparr>
                            in if jump_count st \<ge> 2 then st\<lparr>cycle_synced := True\<rparr> else st)
                         else st)
                      else st)
            in st\<lparr>last_jump := now, last_announce_time := Some now,
                  cycle_uploaded_start := uploaded\<rparr>)
         else
           (let interval = real_of_int (get_announce_interval st now);
                elapsed_in_cycle = (if 0 < tleft \<and> tleft < interval then interval - tleft else 0)
            in if time_added st \<noteq> 0 \<and> now - time_added st < interval then
                 st\<lparr>cycle_uploaded_start := 0\<rparr>
               else if elapsed_in_cycle > 60 then
                 (let avg_speed = (case limit_controller st of
                                     None \<Rightarrow> 0
                                   | Some c \<Rightarrow> max 0 (speed (lc_kalman c)))
                  in if avg_speed > 0 then
                       st\<lparr>cycle_uploaded_start :=
                            max 0 (py_int (real_of_int uploaded - avg_speed * elapsed_in_cycle))\<rparr>
                     else st\<lparr>cycle_uploaded_start := uploaded\<rparr>)
               else st\<lparr>cycle_uploaded_start := uploaded\<rparr>))
      in st\<lparr>cycle_start := now, cycle_index := cycle_index st + 1,
            dl_limited_this_cycle := False, reannounced_this_cycle := False,
            last_dl_limit := - 1,
            limit_controller := map_option controller_reset (limit_controller st),
            speed_tracker := [], prev_time_left := tleft\<rparr>)"

definition get_real_avg_speed :: "torrent_state \<Rightarrow> int \<Rightarrow> real \<Rightarrow> real" where
  "get_real_avg_speed st total_uploaded now =
     (if session_start_time st \<le> 0 then 0
      else (let dt = max (1 / 10 ^ 6) (now - session_start_time st)
            in real_of_int (total_uploaded - total_uploaded_start st) / dt))"

subsection \<open>\<open>DownloadLimiter\<close>\<close>

text \<open>
  The reasons of \<open>calc_dl_limit\<close>: the empty string, and the literals for "average
  recovered", "severe overspeed", "average over the limit", "sustained overspeed" and
  "adjusted limit".
\<close>

datatype dl_reason =
  DL_none | DL_avg_recovered | DL_severe_overspeed | DL_avg_over_limit
| DL_sustained_overspeed | DL_adjust

definition calc_dl_limit ::
  "torrent_state \<Rightarrow> int \<Rightarrow> int \<Rightarrow> int \<Rightarrow> real \<Rightarrow> real \<Rightarrow> int \<times> dl_reason" where
  "calc_dl_limit st total_done total_uploaded total_sz dl_speed now =
     (let this_up = real_of_int (this_up st total_uploaded);
          this_time = this_time st now
      in if this_time < 2 then (- 1, DL_none)
         else
           (let avg_speed = this_up / this_time in
            if avg_speed \<le> SPEED_LIMIT then
              (if last_dl_limit st > 0 then (- 1, DL_avg_recovered) else (- 1, DL_none))
            else
              (let remaining = real_of_int (total_sz - total_done) in
               if remaining \<le> 0 then (- 1, DL_none)
               else
                 (let eta = remaining / max dl_speed 1;
                      min_time = DL_LIMIT_MIN_TIME * (if last_limit st > 0 then 2 else 1)
                  in if last_dl_limit st \<le> 0 then
                       (if 0 < eta \<and> eta \<le> min_time then
                          (let denominator = this_up / SPEED_LIMIT - this_time + DL_LIMIT_BUFFER in
                           if denominator \<le> 0 then (DL_LIMIT_MIN, DL_severe_overspeed)
                           else (let dl_limit = remaining / denominator / 1024
                                 in (max DL_LIMIT_MIN (py_int dl_limit), DL_avg_over_limit)))
                        else (- 1, DL_none))
                     else
                       (if avg_speed \<ge> SPEED_LIMIT
                           \<and> dl_speed / 1024 < 2 * real_of_int (last_dl_limit st) then
                          (let denominator =
                                 this_up / SPEED_LIMIT - this_time + DL_LIMIT_ADJUST_BUFFER in
                           if denominator \<le> 0 then (DL_LIMIT_MIN, DL_sustained_overspeed)
                           else (let dl_limit = remaining / denominator / 1024;
                                     new_limit = max DL_LIMIT_MIN (py_int dl_limit)
                                 in if real_of_int new_limit < real_of_int (last_dl_limit st) * 0.95
                                    then (new_limit, DL_adjust)
                                    else (- 1, DL_none)))
                        else (- 1, DL_none))))))"


subsection \<open>\<open>PrecisionLimitEngine._calculate_upload_limit\<close>\<close>

text \<open>
  The reasons of the upload cap: the literals for "paused", "overspeed brake" and
  "waiting for the reannounce", or the controller's reason, to which the progress
  protection may append its suffix (the flag).
\<close>

datatype up_reason =
  UR_paused | UR_overspeed_brake | UR_waiting_reannounce | UR_controller ctrl_reason bool

text \<open>
  The method reads \<open>self.paused\<close>, \<open>self._tuning\<close> and the module-level precision
  tracker; they are the first three parameters. It returns (limit, reason) and the
  state after the call. The overspeed notification to the notifier is not modelled.
\<close>

definition calculate_upload_limit ::
  "bool \<Rightarrow> engine_tuning \<Rightarrow> precision_tracker \<Rightarrow> torrent_state \<Rightarrow> int \<Rightarrow> real \<Rightarrow> real
     \<Rightarrow> real \<Rightarrow> real \<Rightarrow> (int \<times> up_reason) \<times> torrent_state" where
  "calculate_upload_limit paused tn tracker st total_uploaded up_speed progress tleft now =
     (if paused then ((- 1, UR_paused), st)
      else if get_real_avg_speed st total_uploaded now > SPEED_LIMIT * 1.05 then
        ((MIN_LIMIT, UR_overspeed_brake), st)
      else if waiting_reannounce st then
        ((REANNOUNCE_WAIT_LIMIT * 1024, UR_waiting_reannounce), st)
      else
        (let elapsed = max 0 (now - cycle_start st);
             uploaded_in_cycle = this_up st total_uploaded;
             ph = get_phase st tleft;
             precision_adj = get_adjustment tracker ph;
             c = (case limit_controller st of None \<Rightarrow> controller_new tn | Some c \<Rightarrow> c);
             r = calculate c (real_of_int (target_speed st)) uploaded_in_cycle tleft elapsed
                   ph now precision_adj;
             limit = fst (fst r);
             reason = fst (snd (fst r));
             st = st\<lparr>limit_controller := Some (snd r), last_debug := Some (snd (snd (fst r)))\<rparr>
         in if progress > PROGRESS_PROTECT \<and> limit < 0 \<and> tleft < 30 then
              ((max MIN_LIMIT (target_speed st), UR_controller reason True), st)
            else ((limit, UR_controller reason False), st)))"

subsection \<open>\<open>ReannounceOptimizer\<close>\<close>

text \<open>
  The reasons: the empty string and the literals for "optimised reannounce", "waiting
  for the reannounce" and "average recovered".
\<close>

datatype ra_reason = RA_none | RA_optimised | RA_waiting | RA_avg_recovered

text \<open>
  The sum that gives \<open>earliest\<close> is the one place where the rounding of doubles
  decides whether a branch can be taken at all. With the exact sum, \<open>now >= earliest\<close>
  contradicts a cycle average above \<open>SPEED_LIMIT\<close>, so the "optimised" return would be
  dead; the machine's sum absorbs a small overshoot at an epoch-sized \<open>now\<close>, and the
  source does return it. The sum as the machine computes it is therefore a parameter,
  \<open>dsum\<close>, about which nothing is assumed; every other operation is the exact one, as
  everywhere else.
\<close>

definition should_reannounce ::
  "(real \<Rightarrow> real \<Rightarrow> real) \<Rightarrow> torrent_state \<Rightarrow> int \<Rightarrow> int \<Rightarrow> int \<Rightarrow> real \<Rightarrow> real
     \<Rightarrow> (bool \<times> ra_reason) \<times> torrent_state" where
  "should_reannounce dsum st total_done total_uploaded total_sz now clock =
     (if last_reannounce st > 0 \<and> now - last_reannounce st < REANNOUNCE_MIN_INTERVAL then
        ((False, RA_none), st)
      else
        (let this_up = real_of_int (this_up st total_uploaded);
             this_time = this_time st now
         in if this_time < 30 then ((False, RA_none), st)
            else
              (let avg = get_avg_speeds (speed_tracker st) clock REANNOUNCE_SPEED_SAMPLES;
                   avg_up = fst avg;
                   avg_dl = snd avg
               in if avg_up \<le> SPEED_LIMIT \<or> avg_dl \<le> 0 then ((False, RA_none), st)
                  else
                    (let remaining = real_of_int (total_sz - total_done) in
                     if remaining \<le> 0 then ((False, RA_none), st)
                     else
                       (let announce_interval = real_of_int (get_announce_interval st now);
                            complete_time = remaining / avg_dl + now;
                            perfect_time = complete_time - announce_interval * SPEED_LIMIT / avg_up;
                            earliest = (if this_up / this_time > SPEED_LIMIT then
                                          dsum ((this_up - SPEED_LIMIT * this_time) / (45 * 1024 * 1024)) now
                                        else now)
                        in if earliest - (now - this_time) < REANNOUNCE_MIN_INTERVAL then
                             ((False, RA_none), st)
                           else if earliest > perfect_time then
                             (if now \<ge> earliest then
                                (if this_up / this_time > SPEED_LIMIT then ((True, RA_optimised), st)
                                 else ((False, RA_none), st))
                              else
                                (if earliest < perfect_time + 60 then
                                   ((False, RA_waiting), st\<lparr>waiting_reannounce := True\<rparr>)
                                 else ((False, RA_none), st)))
                           else ((False, RA_none), st))))))"

definition check_waiting_reannounce ::
  "torrent_state \<Rightarrow> int \<Rightarrow> real \<Rightarrow> (bool \<times> ra_reason) \<times> torrent_state" where
  "check_waiting_reannounce st total_uploaded now =
     (if \<not> waiting_reannounce st then ((False, RA_none), st)
      else
        (let this_up = real_of_int (this_up st total_uploaded);
             this_time = this_time st now
         in if this_time < REANNOUNCE_MIN_INTERVAL then ((False, RA_none), st)
            else
              (let avg_speed = safe_div this_up this_time 0 in
               if avg_speed < SPEED_LIMIT then
                 ((True, RA_avg_recovered), st\<lparr>waiting_reannounce := False\<rparr>)
               else ((False, RA_none), st))))"

text \<open>
  \<open>_do_reannounce\<close>: \<open>rpc_ok\<close> is false when the call to the client raised, and then
  nothing is recorded; \<open>clock\<close> is the reading of \<open>time.time()\<close> after the call.
\<close>

definition do_reannounce :: "torrent_state \<Rightarrow> bool \<Rightarrow> real \<Rightarrow> torrent_state" where
  "do_reannounce st rpc_ok clock =
     (if \<not> rpc_ok then st
      else st\<lparr>last_reannounce := clock, reannounced_this_cycle := True,
              waiting_reannounce := False\<rparr>)"

subsection \<open>\<open>PrecisionLimitEngine._cleanup_states\<close> and the upsert of \<open>_process_all\<close>\<close>

type_synonym states = "string \<rightharpoonup> torrent_state"

definition cleanup_states :: "states \<Rightarrow> string set \<Rightarrow> real \<Rightarrow> states" where
  "cleanup_states sts active_hashes now =
     (\<lambda>h. case sts h of
             None \<Rightarrow> None
           | Some st \<Rightarrow>
               if h \<in> active_hashes then Some st
               else if session_start_time st > 0 \<and> now - session_start_time st > 7200 then None
               else Some st)"

text \<open>
  The state that \<open>_process_all\<close> creates for a hash it has no state for.
\<close>

definition created_state :: "engine_tuning \<Rightarrow> string \<Rightarrow> torrent_state" where
  "created_state tn h =
     (torrent_state_new h)\<lparr>limit_controller := Some (controller_new tn),
                            speed_tracker := []\<rparr>"

text \<open>
  What \<open>_process_all\<close> does to the state map when the client lists a torrent: the state
  is created if the hash is new, the basic information is attached, and the session is
  initialised once. \<open>nm\<close>, \<open>inst_id\<close>, \<open>tsize\<close>, \<open>added_on\<close> and \<open>uploaded\<close> are the
  torrent's fields as the client reports them.
\<close>

definition observe_torrent ::
  "engine_tuning \<Rightarrow> states \<Rightarrow> string \<Rightarrow> string \<Rightarrow> int \<Rightarrow> int \<Rightarrow> real \<Rightarrow> int \<Rightarrow> real \<Rightarrow> states" where
  "observe_torrent tn sts h nm inst_id tsize added_on uploaded now =
     (let st = (case sts h of None \<Rightarrow> created_state tn h | Some st \<Rightarrow> st);
          st = st\<lparr>name := nm, instance_id := Some inst_id,
                  total_size := (if tsize \<noteq> 0 then tsize else total_size st)\<rparr>;
          st = (if added_on > 0 then st\<lparr>time_added := added_on\<rparr> else st);
          st = (if session_start_time st \<le> 0 then
                  st\<lparr>session_start_time := now, total_uploaded_start := uploaded,
                      cache_ts := now\<rparr>
                else st)
      in sts(h \<mapsto> st))"

subsection \<open>Persistence: \<open>_restore_states_from_db\<close> and \<open>_save_states_to_db\<close>\<close>

text \<open>
  Both functions go through \<open>self.db\<close>, the object handed to the engine's constructor,
  whose type the engine never checks. What they need of it is modelled as it is in Python:
  the names that attribute lookup finds on the object, and the parameters that its
  \<open>save_torrent_limit_state\<close> takes after \<open>self\<close> (none of them with a default).
  A lookup of a name that is not there raises \<open>AttributeError\<close>; a call whose keywords
  are not exactly the parameters raises \<open>TypeError\<close>.
\<close>

datatype py_error = AttributeError | TypeError

record db_object =
  db_attributes :: "string list"
  db_save_parameters :: "string list"

definition py_getattr :: "db_object \<Rightarrow> string \<Rightarrow> py_error + unit" where
  "py_getattr obj nm = (if nm \<in> set (db_attributes obj) then Inr () else Inl AttributeError)"

definition py_bind_keywords :: "string list \<Rightarrow> string list \<Rightarrow> py_error + unit" where
  "py_bind_keywords parameters keywords =
     (if set keywords = set parameters then Inr () else Inl TypeError)"

text \<open>
  The object that \<open>app.py\<close> passes to every engine it creates: the module-level
  \<open>db = Database()\<close> of \<open>database.py\<close>. Its attributes are the two that \<open>__init__\<close>
  assigns and the methods of the class, in the order of the source (the class defines no
  \<open>__getattr__\<close>, and the names that every Python object has are left out);
  \<open>save_torrent_limit_state(self, state: Dict)\<close> takes one dictionary.
\<close>

definition database :: db_object where
  "database =
     \<lparr>db_attributes =
        [''db_path'', ''_local'', ''__init__'', ''get_conn'', ''_init_db'', ''_ensure_columns'',
         ''_init_builtin_rules'', ''get_config'', ''set_config'', ''get_all_config'',
         ''get_qb_instances'', ''get_qb_instance'', ''add_qb_instance'', ''update_qb_instance'',
         ''delete_qb_instance'', ''get_pt_sites'', ''get_pt_site'', ''get_pt_sites_with_rss'',
         ''_clean_cookie'', ''_clean_url'', ''add_pt_site'', ''update_pt_site'',
         ''delete_pt_site'', ''get_speed_rules'', ''get_enabled_speed_rules'',
         ''add_speed_rule'', ''update_speed_rule'', ''delete_speed_rule'', ''get_rss_rules'',
         ''add_rss_rule'', ''update_rss_rule'', ''delete_rss_rule'', ''get_remove_rules'',
         ''get_enabled_remove_rules'', ''add_remove_rule'', ''update_remove_rule'',
         ''delete_remove_rule'', ''reset_builtin_rules'', ''add_log'', ''get_logs'',
         ''_format_log_time'', ''clear_logs'', ''add_limit_history'', ''get_limit_history'',
         ''get_stats'', ''update_stats'', ''hash_password'', ''create_user'', ''verify_user'',
         ''user_exists'', ''update_password'', ''save_torrent_limit_state'',
         ''load_torrent_limit_state'', ''delete_torrent_limit_state'',
         ''get_all_torrent_limit_states'', ''cleanup_old_limit_states'', ''get_limit_stats'',
         ''update_limit_stats'', ''save_runtime_config'', ''get_runtime_config''],
      db_save_parameters = [''state'']\<rparr>"

text \<open>
  The keyword arguments of the \<open>db.save_torrent_limit_state\<close> call of
  \<open>_save_states_to_db\<close>: their names, and their values for one state (the serialised
  record of the state).
\<close>

definition save_keywords :: "string list" where
  "save_keywords =
     [''torrent_hash'', ''name'', ''cycle_start'', ''cycle_uploaded_start'', ''cycle_index'',
      ''cycle_synced'', ''cycle_interval'', ''jump_count'', ''last_jump'', ''prev_time_left'',
      ''cached_time_left'', ''instance_id'', ''site_id'', ''tid'', ''target_speed'',
      ''last_limit'', ''last_limit_reason'', ''last_dl_limit'', ''session_start_time'',
      ''total_uploaded_start'', ''total_size'']"

record saved_state =
  s_torrent_hash :: string
  s_name :: string
  s_cycle_start :: real
  s_cycle_uploaded_start :: int
  s_cycle_index :: int
  s_cycle_synced :: int
  s_cycle_interval :: real
  s_jump_count :: int
  s_last_jump :: real
  s_prev_time_left :: real
  s_cached_time_left :: real
  s_instance_id :: "int option"
  s_site_id :: "int option"
  s_tid :: "int option"
  s_target_speed :: int
  s_last_limit :: int
  s_last_limit_reason :: string
  s_last_dl_limit :: int
  s_session_start_time :: real
  s_total_uploaded_start :: int
  s_total_size :: int

definition save_state :: "string \<Rightarrow> torrent_state \<Rightarrow> saved_state" where
  "save_state h st =
     \<lparr>s_torrent_hash = h, s_name = name st, s_cycle_start = cycle_start st,
      s_cycle_uploaded_start = cycle_uploaded_start st, s_cycle_index = cycle_index st,
      s_cycle_synced = (if cycle_synced st then 1 else 0),
      s_cycle_interval = cycle_interval st, s_jump_count = jump_count st,
      s_last_jump = last_jump st, s_prev_time_left = prev_time_left st,
      s_cached_time_left = cached_time_left st, s_instance_id = instance_id st,
      s_site_id = site_id st, s_tid = tid st, s_target_speed = target_speed st,
      s_last_limit = last_limit st, s_last_limit_reason = last_limit_reason st,
      s_last_dl_limit = last_dl_limit st, s_session_start_time = session_start_time st,
      s_total_uploaded_start = total_uploaded_start st, s_total_size = total_size st\<rparr>"

text \<open>
  \<open>_save_states_to_db\<close> over \<open>items\<close>, the pairs of \<open>self._states.items()\<close>. The
  store is \<open>d\<close>, and \<open>write\<close> is what the body of the object's method does to it once
  the call has bound its arguments. An exception of the lookup or of the call is caught
  inside the loop, which goes on with the next pair: that state is not written.
\<close>

definition save_states_to_db ::
  "db_object \<Rightarrow> ('d \<Rightarrow> saved_state \<Rightarrow> 'd) \<Rightarrow> 'd \<Rightarrow> (string \<times> torrent_state) list \<Rightarrow> 'd" where
  "save_states_to_db obj write d items =
     foldl (\<lambda>d (h, st).
              case py_getattr obj ''save_torrent_limit_state'' of
                Inl e \<Rightarrow> d
              | Inr u \<Rightarrow>
                  (case py_bind_keywords (db_save_parameters obj) save_keywords of
                     Inl e \<Rightarrow> d
                   | Inr u \<Rightarrow> write d (save_state h st)))
           d items"

text \<open>
  A dictionary of the list that the loop of \<open>_restore_states_from_db\<close> goes through:
  the keys that the loop reads, each of which may be missing or hold \<open>None\<close>.
\<close>

record db_row =
  r_torrent_hash :: "string option"
  r_name :: "string option"
  r_cycle_start :: "real option"
  r_cycle_uploaded_start :: "int option"
  r_cycle_index :: "int option"
  r_cycle_synced :: "int option"
  r_cycle_interval :: "real option"
  r_jump_count :: "int option"
  r_last_jump :: "real option"
  r_prev_time_left :: "real option"
  r_cached_time_left :: "real option"
  r_instance_id :: "int option"
  r_site_id :: "int option"
  r_tid :: "int option"
  r_target_speed :: "int option"
  r_last_limit :: "int option"
  r_last_limit_reason :: "string option"
  r_last_dl_limit :: "int option"
  r_session_start_time :: "real option"
  r_total_uploaded_start :: "int option"
  r_total_size :: "int option"

text \<open>Python's \<open>x or d\<close> on a number that may be \<open>None\<close>: zero is falsy.\<close>

definition py_or :: "'a::zero option \<Rightarrow> 'a \<Rightarrow> 'a" where
  "py_or x d = (case x of None \<Rightarrow> d | Some v \<Rightarrow> if v = 0 then d else v)"

text \<open>
  The body of the loop of \<open>_restore_states_from_db\<close> for one row; \<open>None\<close> when the
  row has no \<open>torrent_hash\<close> (the \<open>KeyError\<close> skips the row). \<open>now\<close> is the wall
  clock read once before the loop.
\<close>

definition restore_state :: "engine_tuning \<Rightarrow> real \<Rightarrow> db_row \<Rightarrow> torrent_state option" where
  "restore_state tn now s =
     (case r_torrent_hash s of
        None \<Rightarrow> None
      | Some h \<Rightarrow>
          Some ((torrent_state_new h)
            \<lparr>cycle_start := py_or (r_cycle_start s) 0,
             cycle_uploaded_start := py_or (r_cycle_uploaded_start s) 0,
             cycle_index := py_or (r_cycle_index s) 0,
             cycle_synced := (py_or (r_cycle_synced s) 0 \<noteq> 0),
             cycle_interval := py_or (r_cycle_interval s) 0,
             jump_count := py_or (r_jump_count s) 0,
             last_jump := py_or (r_last_jump s) 0,
             prev_time_left := py_or (r_prev_time_left s) 0,
             cached_time_left := py_or (r_cached_time_left s) 0,
             cache_ts := now,
             instance_id := r_instance_id s,
             site_id := r_site_id s,
             tid := r_tid s,
             target_speed := py_or (r_target_speed s) 0,
             last_limit := py_or (r_last_limit s) (- 2),
             last_limit_reason := (case r_last_limit_reason s of None \<Rightarrow> [] | Some t \<Rightarrow> t),
             last_dl_limit := py_or (r_last_dl_limit s) (- 1),
             session_start_time := py_or (r_session_start_time s) 0,
             total_uploaded_start := py_or (r_total_uploaded_start s) 0,
             total_size := py_or (r_total_size s) 0,
             limit_controller := Some (controller_new tn),
             speed_tracker := []\<rparr>))"

text \<open>
  \<open>_restore_states_from_db\<close>: the lookup of \<open>get_torrent_limit_states\<close> on the object
  comes first, and its exception is caught by a \<open>return\<close>, so that nothing is restored.
  \<open>rows\<close> is what the call of the method returns where the object has it: \<open>None\<close>
  when the call raises or returns \<open>None\<close>. Later rows overwrite earlier ones with the
  same hash.
\<close>

definition restore_states_from_db ::
  "engine_tuning \<Rightarrow> real \<Rightarrow> db_object \<Rightarrow> db_row list option \<Rightarrow> states \<Rightarrow> states" where
  "restore_states_from_db tn now obj rows sts =
     (case py_getattr obj ''get_torrent_limit_states'' of
        Inl e \<Rightarrow> sts
      | Inr u \<Rightarrow>
          foldl (\<lambda>m s. case restore_state tn now s of
                          None \<Rightarrow> m
                        | Some st \<Rightarrow> m(hash st \<mapsto> st))
                sts (case rows of None \<Rightarrow> [] | Some rs \<Rightarrow> rs))"

subsection \<open>\<open>PrecisionLimitEngine._process_torrent\<close>\<close>

text \<open>
  One pass of the engine over one torrent. Everything the pass reads from outside the
  state is a field of \<open>tick\<close>: the loop's time \<open>now\<close>; the torrent's fields as the
  client reports them; \<open>t_tleft\<close>, the value of \<open>state.get_tl(now)\<close> after the
  refresh of the properties (the refresh is a call to the client and is not modelled);
  the rule's target and safety margin; the engine's \<open>paused\<close>, \<open>temp_target_kib\<close>
  and the two cached switches; the precision tracker at the time the cap is computed;
  for each of the two possible \<open>_do_reannounce\<close> calls whether the call to the client
  returned (\<open>t_rpc1_ok\<close>, \<open>t_rpc2_ok\<close>) and the reading of \<open>time.time()\<close> after it;
  the reading of \<open>time.time()\<close> inside \<open>get_avg_speeds\<close>; the machine's sum of two
  doubles, used for \<open>earliest\<close>; and the text of an upload reason (the source's
  literals and number formats). \<open>t_before\<close> stands for whatever
  was done to the state since the previous pass by \<open>_process_all\<close> (name, instance,
  size, session start, site id), by the two background workers (tid, publish time,
  last announce time, cached time left) and by the refresh of the properties at the
  start of this pass (cached time left and its timestamp). The workers run in threads
  of their own; a write of theirs in the middle of a pass is not modelled.

  The notifier, the cycle report (statistics, precision tracker, history) and the
  queueing of the background lookups do not write to the state and are left out.
\<close>

record tick =
  t_now :: real
  t_uploaded :: int
  t_downloaded :: int
  t_total_size :: int
  t_upspeed :: real
  t_dlspeed :: real
  t_progress :: real
  t_tleft :: real
  t_target_kib :: int
  t_safety_margin :: real
  t_paused :: bool
  t_temp_target_kib :: "int option"
  t_any_reannounce_opt :: bool
  t_any_dl :: bool
  t_tracker :: precision_tracker
  t_rpc1_ok :: bool
  t_clock1 :: real
  t_clock_avg :: real
  t_rpc2_ok :: bool
  t_clock2 :: real
  t_double_sum :: "real \<Rightarrow> real \<Rightarrow> real"
  t_reason_text :: "up_reason \<Rightarrow> string"
  t_before :: "torrent_state \<Rightarrow> torrent_state"

text \<open>A forced reannounce that was issued: the pass's \<open>now\<close>, the recorded time, the reason.\<close>

type_synonym event = "real \<times> real \<times> ra_reason"

text \<open>Speed samples, cycle detection, previous time left and the effective target.\<close>

definition pt_observe :: "torrent_state \<Rightarrow> tick \<Rightarrow> torrent_state" where
  "pt_observe st tk =
     (let now = t_now tk;
          tleft = t_tleft tk;
          st = st\<lparr>limit_controller :=
                    map_option (\<lambda>c. record_speed c now (t_upspeed tk)) (limit_controller st),
                  speed_tracker :=
                    st_record_speed (speed_tracker st) (t_upspeed tk) (t_dlspeed tk) now\<rparr>;
          is_jump = (cycle_start st > 0 \<and> tleft > prev_time_left st + 30);
          st = (if cycle_start st = 0 \<or> is_jump
                then new_cycle st now (t_uploaded tk) tleft is_jump else st);
          st = st\<lparr>prev_time_left := tleft\<rparr>;
          target_kib = (case t_temp_target_kib tk of Some k \<Rightarrow> k | None \<Rightarrow> t_target_kib tk);
          safety = (if t_safety_margin tk = 0 then 1 else t_safety_margin tk);
          target_bytes = real_of_int (target_kib * 1024) * safety
      in st\<lparr>target_speed := py_int target_bytes\<rparr>)"

text \<open>The check of a pending wait for the reannounce.\<close>

definition pt_waiting :: "torrent_state \<Rightarrow> tick \<Rightarrow> torrent_state \<times> event list" where
  "pt_waiting st tk =
     (if t_any_reannounce_opt tk then
        (let r = check_waiting_reannounce st (t_uploaded tk) (t_now tk) in
         if fst (fst r) then
           (do_reannounce (snd r) (t_rpc1_ok tk) (t_clock1 tk),
            if t_rpc1_ok tk then [(t_now tk, t_clock1 tk, snd (fst r))] else [])
         else (snd r, []))
      else (st, []))"

text \<open>The upload cap and the download cap; the result is (state, upload cap, \<open>dl_apply\<close>).\<close>

definition pt_limits ::
  "engine_tuning \<Rightarrow> torrent_state \<Rightarrow> tick \<Rightarrow> torrent_state \<times> int \<times> int option" where
  "pt_limits tn st tk =
     (let up = calculate_upload_limit (t_paused tk) tn (t_tracker tk) st (t_uploaded tk)
                 (t_upspeed tk) (t_progress tk) (t_tleft tk) (t_now tk);
          st = (snd up)\<lparr>last_limit_reason := t_reason_text tk (snd (fst up))\<rparr>
      in if t_any_dl tk then
           (let dl_kib = fst (calc_dl_limit st (t_downloaded tk) (t_uploaded tk)
                                (t_total_size tk) (t_dlspeed tk) (t_now tk));
                st = (if dl_kib > 0 \<and> \<not> dl_limited_this_cycle st
                      then st\<lparr>dl_limited_this_cycle := True\<rparr> else st)
            in if dl_kib \<noteq> last_dl_limit st then
                 (st\<lparr>last_dl_limit := dl_kib\<rparr>, fst (fst up),
                  Some (if dl_kib < 0 then - 1 else dl_kib * 1024))
               else (st, fst (fst up), None))
         else (st, fst (fst up), None))"

text \<open>The reannounce decision.\<close>

definition pt_decide :: "torrent_state \<Rightarrow> tick \<Rightarrow> torrent_state \<times> event list" where
  "pt_decide st tk =
     (if t_any_reannounce_opt tk \<and> \<not> reannounced_this_cycle st then
        (let r = should_reannounce (t_double_sum tk) st (t_downloaded tk) (t_uploaded tk)
                   (t_total_size tk) (t_now tk) (t_clock_avg tk) in
         if fst (fst r) then
           (do_reannounce (snd r) (t_rpc2_ok tk) (t_clock2 tk),
            if t_rpc2_ok tk then [(t_now tk, t_clock2 tk, snd (fst r))] else [])
         else (snd r, []))
      else (st, []))"

text \<open>
  \<open>_process_torrent\<close> returns (upload cap, \<open>dl_apply\<close>, time left); the model returns
  the state after the pass and the reannounces issued as well.
\<close>

definition process_torrent ::
  "engine_tuning \<Rightarrow> torrent_state \<Rightarrow> tick
     \<Rightarrow> torrent_state \<times> (int \<times> int option \<times> real) \<times> event list" where
  "process_torrent tn st tk =
     (let st = pt_observe st tk;
          w = pt_waiting st tk;
          l = pt_limits tn (fst w) tk;
          d = pt_decide (fst l) tk
      in (fst d, (fst (snd l), snd (snd l), t_tleft tk), snd w @ snd d))"

text \<open>
  A pass as \<open>_process_all\<close> drives it: what happened to the state since the last pass,
  then \<open>_process_torrent\<close>, then the new upload cap is remembered in \<open>last_limit\<close>.
\<close>

definition engine_pass :: "engine_tuning \<Rightarrow> torrent_state \<Rightarrow> tick \<Rightarrow> torrent_state \<times> event list" where
  "engine_pass tn st tk =
     (let r = process_torrent tn (t_before tk st) tk;
          new_limit = fst (fst (snd r))
      in ((fst r)\<lparr>last_limit := new_limit\<rparr>, snd (snd r)))"

text \<open>
  The life of the state of one torrent hash: passes of the engine, and evictions by
  \<open>_cleanup_states\<close>, after which \<open>_process_all\<close> creates a new state the next time
  the client lists the torrent.
\<close>

datatype step = Pass tick | Evict

text \<open>The reannounces issued over a sequence of steps, in order.\<close>

fun run_steps :: "engine_tuning \<Rightarrow> torrent_state \<Rightarrow> step list \<Rightarrow> event list" where
  "run_steps tn st [] = []"
| "run_steps tn st (Pass tk # ss) =
     (let r = engine_pass tn st tk in snd r @ run_steps tn (fst r) ss)"
| "run_steps tn st (Evict # ss) = run_steps tn (created_state tn (hash st)) ss"


section \<open>The quantiser as the specification words it\<close>

text \<open>
  The reference algorithm of the specification, word for word: the base step of the
  phase, adjusted by \<open>ratio = current / target\<close>, halved again with a floor of 256 on a
  moving trend, clamped to \<open>[256, 8192]\<close>, then round-to-nearest and the floor
  \<open>MIN_LIMIT\<close>.
\<close>

fun spec_base_step :: "phase \<Rightarrow> int" where
  "spec_base_step Warmup = 4096"
| "spec_base_step Catch = 2048"
| "spec_base_step Steady = 512"
| "spec_base_step Finish = 256"

definition spec_adjust :: "int \<Rightarrow> real \<Rightarrow> int" where
  "spec_adjust base ratio =
     (if ratio > 1.2 then 2 * base
      else if ratio > 1.05 then base
      else if ratio > 0.8 then base div 2
      else base)"

definition spec_trend :: "int \<Rightarrow> real \<Rightarrow> int" where
  "spec_trend step trend = (if \<bar>trend\<bar> > 0.1 then max 256 (step div 2) else step)"

definition spec_round :: "int \<Rightarrow> int \<Rightarrow> int" where
  "spec_round x step = max 4096 (((x + step div 2) div step) * step)"

definition spec_quantize :: "int \<Rightarrow> phase \<Rightarrow> real \<Rightarrow> real \<Rightarrow> real \<Rightarrow> int" where
  "spec_quantize x ph current target trend =
     spec_round x
       (max 256 (min 8192 (spec_trend (spec_adjust (spec_base_step ph) (current / target)) trend)))"

text \<open>
  The reference algorithm with the two places where the code differs written in: in
  FINISH the step is the constant 256 and the ratio is not consulted, and the ratio of a
  zero (or smaller than \<open>1e-10\<close> in magnitude) target is taken to be 1.
\<close>

definition amended_quantize :: "int \<Rightarrow> phase \<Rightarrow> real \<Rightarrow> real \<Rightarrow> real \<Rightarrow> int" where
  "amended_quantize x ph current target trend =
     (let ratio = (if target = 0 \<or> \<bar>target\<bar> < 1 / 10 ^ 10 then 1 else current / target);
          s = (if ph = Finish then 256 else spec_adjust (spec_base_step ph) ratio)
      in spec_round x (max 256 (min 8192 (spec_trend s trend))))"

section \<open>Invariants and traces used in the proofs\<close>

text \<open>
  The PID controller's stored output is always inside the clamp range, and a controller
  that has not been initialised still holds the constructor's (or \<open>reset\<close>'s) 1.0.
\<close>

definition pid_inv :: "pid_controller \<Rightarrow> bool" where
  "pid_inv c = (0.5 \<le> last_output c \<and> last_output c \<le> 2 \<and>
                (pid_initialized c \<or> last_output c = 1))"

text \<open>
  The covariance of the Kalman filter stays symmetric and positive semi-definite, and
  the noise parameters keep their signs.
\<close>

definition cov_ok :: "kalman \<Rightarrow> bool" where
  "cov_ok k = (p01 k = p10 k \<and> 0 \<le> p00 k \<and> 0 \<le> p11 k \<and> p01 k * p01 k \<le> p00 k * p11 k \<and>
               0 < r_noise k \<and> 0 \<le> q_speed k \<and> 0 \<le> q_accel k)"

text \<open>
  The filter's own prediction \<open>speed + accel * dt\<close> at an update that is accepted
  (initialised filter, \<open>dt > 0.01\<close>) is not negative.
\<close>

definition prediction_nonneg :: "kalman \<Rightarrow> real \<Rightarrow> bool" where
  "prediction_nonneg k now =
     (\<not> k_initialized k \<or> now - k_last_time k \<le> 0.01 \<or>
      0 \<le> speed k + accel k * (now - k_last_time k))"

fun predictions_nonneg :: "kalman \<Rightarrow> (real \<times> real) list \<Rightarrow> bool" where
  "predictions_nonneg k [] = True"
| "predictions_nonneg k ((m, now) # xs) =
     (prediction_nonneg k now \<and> predictions_nonneg (snd (kalman_update k m now)) xs)"

text \<open>The speed estimate after each update of a sequence.\<close>

fun kalman_speeds :: "kalman \<Rightarrow> (real \<times> real) list \<Rightarrow> real list" where
  "kalman_speeds k [] = []"
| "kalman_speeds k ((m, now) # xs) =
     (let k' = snd (kalman_update k m now) in speed k' # kalman_speeds k' xs)"

text \<open>The adjustments of the precision tracker are inside their clamp ranges.\<close>

definition tracker_inv :: "precision_tracker \<Rightarrow> bool" where
  "tracker_inv tr = ((\<forall>ph. 0.92 \<le> phase_adj tr ph \<and> phase_adj tr ph \<le> 1.08) \<and>
                    0.95 \<le> global_adj tr \<and> global_adj tr \<le> 1.05)"

text \<open>
  While a wait for the reannounce is pending, the last forced reannounce (if there was
  one) lies at least 900 seconds before the time \<open>t\<close> from which the next pass runs.
\<close>

definition ra_inv :: "torrent_state \<Rightarrow> real \<Rightarrow> bool" where
  "ra_inv st t =
     (\<not> waiting_reannounce st \<or> last_reannounce st \<le> 0 \<or> last_reannounce st + 900 \<le> t)"

text \<open>
  The state of a torrent whose last forced reannounce was recorded at \<open>l\<close>: either
  the state still holds that time, or it was created after it, and then its cycle has
  not started before \<open>l\<close>. \<open>m\<close> bounds the clock readings taken so far.
\<close>

definition life_inv :: "torrent_state \<Rightarrow> real \<Rightarrow> real \<Rightarrow> real \<Rightarrow> bool" where
  "life_inv st t m l =
     (ra_inv st t \<and> l \<le> m \<and>
      (last_reannounce st = l \<or>
       last_reannounce st \<le> 0 \<and> l \<le> t \<and> (cycle_start st = 0 \<or> l \<le> cycle_start st)))"

text \<open>
  What happens to a state between two passes leaves the reannounce fields and the cycle
  start alone: neither \<open>_process_all\<close> nor the background workers write them.
\<close>

definition keeps_reannounce_fields :: "(torrent_state \<Rightarrow> torrent_state) \<Rightarrow> bool" where
  "keeps_reannounce_fields f =
     (\<forall>st. last_reannounce (f st) = last_reannounce st \<and>
           waiting_reannounce (f st) = waiting_reannounce st \<and>
           cycle_start (f st) = cycle_start st)"

text \<open>
  The clock readings of a sequence of steps. The \<open>now\<close> of a pass is positive and not
  before \<open>t\<close>, the \<open>now\<close> of the pass before it; the readings of \<open>time.time()\<close>
  inside a pass are not before its \<open>now\<close>. An eviction happens at the end of a pass
  over all torrents, so the passes after it do not start before \<open>m\<close>, the latest
  reading taken before it.
\<close>

fun steps_ok :: "real \<Rightarrow> real \<Rightarrow> step list \<Rightarrow> bool" where
  "steps_ok t m [] = True"
| "steps_ok t m (Pass tk # ss) =
     (0 < t_now tk \<and> t \<le> t_now tk \<and> t_now tk \<le> t_clock1 tk \<and> t_now tk \<le> t_clock2 tk \<and>
      keeps_reannounce_fields (t_before tk) \<and>
      steps_ok (t_now tk) (max m (max (t_clock1 tk) (t_clock2 tk))) ss)"
| "steps_ok t m (Evict # ss) = steps_ok (max t m) m ss"


section \<open>Example inputs\<close>

text \<open>
  The double nearest to \<open>x + y\<close> for a sum in \<open>[2^30, 2^31)\<close>, where the doubles
  are \<open>2^-22\<close> apart; the epoch seconds of the years 2004 to 2038 lie there. (A tie
  goes up here and to the even neighbour on the machine.)
\<close>

definition double_sum_epoch :: "real \<Rightarrow> real \<Rightarrow> real" where
  "double_sum_epoch x y = real_of_int (round ((x + y) * 2 ^ 22)) / 2 ^ 22"

text \<open>
  The life of one torrent in five passes and an eviction, at epoch-sized times. The
  first pass opens a cycle. At the second the cycle average is one byte per 1000 seconds
  above \<open>SPEED_LIMIT\<close>, the double sum absorbs the overshoot, and the "optimised"
  reannounce is issued. The state is evicted. The third pass starts from a new state
  and opens a cycle, the fourth sets the wait for the reannounce and the fifth resolves
  it.
\<close>

definition example_pass :: "real \<Rightarrow> int \<Rightarrow> int \<Rightarrow> real \<Rightarrow> tick" where
  "example_pass now up down tleft =
     \<lparr>t_now = now, t_uploaded = up, t_downloaded = down, t_total_size = 1000000000,
      t_upspeed = 500000000, t_dlspeed = 1000000, t_progress = 0.5, t_tleft = tleft,
      t_target_kib = 51200, t_safety_margin = 1, t_paused = False, t_temp_target_kib = None,
      t_any_reannounce_opt = True, t_any_dl = True, t_tracker = precision_tracker_global,
      t_rpc1_ok = True, t_clock1 = now + 0.5, t_clock_avg = now + 0.5, t_rpc2_ok = True,
      t_clock2 = now + 0.5, t_double_sum = double_sum_epoch, t_reason_text = (\<lambda>_. []),
      t_before = (\<lambda>st. st)\<rparr>"

definition example_steps :: "step list" where
  "example_steps =
     [Pass (example_pass 1700001000 0 900000000 1790),
      Pass (example_pass 1700002000 52428800001 900000000 790),
      Evict,
      Pass (example_pass 1700002010 52428801001 900000000 1795),
      Pass (example_pass 1700002950 102655591401 840000000 855),
      Pass (example_pass 1700003010 103428801001 840000000 795)]"

text \<open>
  A torrent that the client lists at time 1000 (its first observation) and again at time
  8200, with the cleanup that ends each of the two passes.
\<close>

definition seen_at_1000 :: states where
  "seen_at_1000 =
     cleanup_states
       (observe_torrent engine_tuning Map.empty ''abc'' ''ubuntu.iso'' 1 1000000000 0 0 1000)
       {''abc''} 1000"

definition seen_at_8200 :: states where
  "seen_at_8200 =
     cleanup_states
       (observe_torrent engine_tuning seen_at_1000 ''abc'' ''ubuntu.iso'' 1 1000000000 0 500 8200)
       {''abc''} 8200"

text \<open>
  A state of the torrent of that example as the engine holds it in its third cycle, and a
  one-row answer of a store.
\<close>

definition example_state :: torrent_state where
  "example_state =
     (created_state engine_tuning ''abc'')
       \<lparr>name := ''ubuntu.iso'', cycle_start := 1000, cycle_uploaded_start := 5,
        cycle_index := 3, cycle_synced := True, cycle_interval := 1800, jump_count := 2,
        last_jump := 900, prev_time_left := 700, cached_time_left := 800,
        instance_id := Some 1, target_speed := 51200, last_limit := 61440,
        session_start_time := 500, total_uploaded_start := 1, total_size := 1000\<rparr>"

definition example_row :: db_row where
  "example_row =
     \<lparr>r_torrent_hash = Some ''abc'', r_name = Some ''ubuntu.iso'', r_cycle_start = Some 1000,
      r_cycle_uploaded_start = Some 5, r_cycle_index = Some 3, r_cycle_synced = Some 1,
      r_cycle_interval = Some 1800, r_jump_count = Some 2, r_last_jump = Some 900,
      r_prev_time_left = Some 700, r_cached_time_left = Some 800, r_instance_id = Some 1,
      r_site_id = None, r_tid = None, r_target_speed = Some 51200, r_last_limit = Some 61440,
      r_last_limit_reason = None, r_last_dl_limit = Some (- 1),
      r_session_start_time = Some 500, r_total_uploaded_start = Some 1,
      r_total_size = Some 1000\<rparr>"

section \<open>The adaptive quantiser\<close>

lemma quantize_step_amended:
  "quantize_step ph current target engine_tuning trend =
     (let ratio = (if target = 0 \<or> \<bar>target\<bar> < 1 / 10 ^ 10 then 1 else current / target);
          s = (if ph = Finish then 256 else spec_adjust (spec_base_step ph) ratio)
      in (max 256 (min 8192 (spec_trend s trend))))"
  unfolding quantize_step_def Let_def safe_div_def spec_adjust_def spec_trend_def clamp_def
    engine_tuning_def
  by (cases ph) (simp_all split del: if_split cong: if_cong)


text \<open>
  C2, as stated: for every positive rate command the quantiser equals the
  specification's reference algorithm. It does not: in FINISH with current/target above
  1.2 the reference doubles the step to 512, the code keeps 256. At the command 4352
  with current speed 13 and target 10 the code answers 4352 and the reference 4608.
\<close>

theorem quantize_finish_counterexample:
  "quantize 4352 Finish 13 10 engine_tuning 0 = 4352 \<and>
   spec_quantize 4352 Finish 13 10 0 = 4608"
  by (simp add: quantize_def quantize_step_def spec_quantize_def spec_round_def
      spec_trend_def spec_adjust_def engine_tuning_def MIN_LIMIT_def clamp_def safe_div_def)

lemma amended_quantize_example: "amended_quantize 5000 Steady 13 10 0.2 = 5120"
  unfolding amended_quantize_def spec_round_def spec_trend_def spec_adjust_def Let_def
  by simp

text \<open>
  C2, amended: for every positive rate command the quantiser under the engine's tuning
  equals the reference algorithm in which FINISH uses the fixed step 256 whatever the
  ratio, and the ratio of a zero target counts as 1; the result is never below
  \<open>MIN_LIMIT = 4096\<close>.
\<close>

theorem quantize_refines_amended:
  "0 < limit \<Longrightarrow>
   quantize limit ph current target engine_tuning trend
     = amended_quantize limit ph current target trend \<and>
   MIN_LIMIT \<le> quantize limit ph current target engine_tuning trend"
proof -
  assume pos: "0 < limit"
  have m: "min_limit engine_tuning = 4096"
    by (simp add: engine_tuning_def MIN_LIMIT_def)
  have eq: "quantize limit ph current target engine_tuning trend
     = amended_quantize limit ph current target trend"
    using pos unfolding quantize_def amended_quantize_def spec_round_def m
      quantize_step_amended Let_def
    by (simp split del: if_split cong: if_cong)
  have "MIN_LIMIT \<le> quantize limit ph current target engine_tuning trend"
    using pos unfolding quantize_def Let_def m MIN_LIMIT_def by simp
  with eq show ?thesis by simp
qed

theorem quantize_refines_amended_witness:
  "(0::int) < 5000 \<and>
   quantize 5000 Steady 13 10 engine_tuning 0.2 = 5120 \<and>
   amended_quantize 5000 Steady 13 10 0.2 = 5120 \<and>
   MIN_LIMIT \<le> quantize 5000 Steady 13 10 engine_tuning 0.2"
  using quantize_refines_amended [of 5000 Steady 13 10 "0.2"] amended_quantize_example
  by (simp add: MIN_LIMIT_def)

section \<open>The PID controller\<close>

lemma clamp_bounds:
  fixes lo :: "'a::linorder"
  shows "lo \<le> hi \<Longrightarrow> lo \<le> clamp v lo hi \<and> clamp v lo hi \<le> hi"
  by (auto simp: clamp_def)

lemma pid_inv_new: "pid_inv pid_new"
  by (simp add: pid_inv_def pid_new_def)

lemma pid_update_step:
  assumes "pid_inv c"
  shows "pid_inv (snd (pid_update c t a n))"
    and "fst (pid_update c t a n) = last_output (snd (pid_update c t a n))"
    and "pid_initialized (snd (pid_update c t a n))"
  using assms clamp_bounds [of "1/2::real" 2]
  by (auto simp: pid_update_def pid_inv_def Let_def)

lemma pid_trace_nth_Suc:
  "Suc i < length xs \<Longrightarrow>
   pid_trace c xs ! Suc i =
     pid_update (snd (pid_trace c xs ! i)) (fst (xs ! Suc i)) (fst (snd (xs ! Suc i)))
       (snd (snd (xs ! Suc i)))"
proof (induction xs arbitrary: c i)
  case Nil
  then show ?case by simp
next
  case (Cons x xs)
  obtain t a n where x: "x = (t, a, n)" by (cases x) auto
  show ?case
  proof (cases i)
    case 0
    with Cons.prems obtain y ys where ys: "xs = y # ys" by (cases xs) auto
    obtain t' a' n' where y: "y = (t', a', n')" by (cases y) auto
    show ?thesis using 0 x ys y by (simp add: Let_def)
  next
    case (Suc j)
    with Cons.prems have "Suc j < length xs" by simp
    from Cons.IH [OF this] show ?thesis using Suc x by (simp add: Let_def)
  qed
qed

lemma pid_trace_inv:
  "pid_inv c \<Longrightarrow> i < length xs \<Longrightarrow> pid_inv (snd (pid_trace c xs ! i)) \<and>
     fst (pid_trace c xs ! i) = last_output (snd (pid_trace c xs ! i)) \<and>
     pid_initialized (snd (pid_trace c xs ! i))"
proof (induction xs arbitrary: c i)
  case Nil
  then show ?case by simp
next
  case (Cons x xs)
  obtain t a n where x: "x = (t, a, n)" by (cases x) auto
  show ?case
  proof (cases i)
    case 0
    then show ?thesis using pid_update_step [OF Cons.prems(1), of t a n] x
      by (simp add: Let_def)
  next
    case (Suc j)
    with Cons.prems have j: "j < length xs" by simp
    have "pid_inv (snd (pid_update c t a n))"
      using pid_update_step(1) [OF Cons.prems(1)] .
    from Cons.IH [OF this j] show ?thesis using Suc x by (simp add: Let_def)
  qed
qed

text \<open>
  C4: for every sequence of (target, actual, now) inputs given to a freshly constructed
  controller, every output of \<open>update\<close> lies in \<open>[0.5, 2.0]\<close>; the first output is
  exactly 1.0; and an update that comes at most 10 ms after the time stored by the
  previous accepted update returns the previous output and leaves the controller as it
  was.
\<close>

theorem pid_update_contract:
  assumes "i < length inputs"
  shows "let tr = pid_trace pid_new inputs; out = fst (tr ! i) in
     0.5 \<le> out \<and> out \<le> 2 \<and>
     (i = 0 \<longrightarrow> out = 1) \<and>
     (0 < i \<and> snd (snd (inputs ! i)) - pid_last_time (snd (tr ! (i - 1))) \<le> 0.01
        \<longrightarrow> out = fst (tr ! (i - 1)) \<and> snd (tr ! i) = snd (tr ! (i - 1)))"
proof -
  let ?tr = "pid_trace pid_new inputs"
  have inv: "pid_inv (snd (?tr ! i))" "fst (?tr ! i) = last_output (snd (?tr ! i))"
    using pid_trace_inv [OF pid_inv_new assms] by simp_all
  have range: "0.5 \<le> fst (?tr ! i) \<and> fst (?tr ! i) \<le> 2"
    using inv by (simp add: pid_inv_def)
  have first: "i = 0 \<longrightarrow> fst (?tr ! i) = 1"
  proof
    assume i0: "i = 0"
    with assms obtain x xs where xs: "inputs = x # xs" by (cases inputs) auto
    obtain t a n where x: "x = (t, a, n)" by (cases x) auto
    show "fst (?tr ! i) = 1" using i0 xs x
      by (simp add: Let_def pid_update_def pid_new_def)
  qed
  have skip: "0 < i \<and> snd (snd (inputs ! i)) - pid_last_time (snd (?tr ! (i - 1))) \<le> 0.01
        \<longrightarrow> fst (?tr ! i) = fst (?tr ! (i - 1)) \<and> snd (?tr ! i) = snd (?tr ! (i - 1))"
  proof
    assume h: "0 < i \<and> snd (snd (inputs ! i)) - pid_last_time (snd (?tr ! (i - 1))) \<le> 0.01"
    then obtain j where j: "i = Suc j" by (cases i) auto
    have jl: "j < length inputs" using assms j by simp
    have prev: "fst (?tr ! j) = last_output (snd (?tr ! j))" "pid_initialized (snd (?tr ! j))"
      using pid_trace_inv [OF pid_inv_new jl] by simp_all
    have step: "?tr ! i = pid_update (snd (?tr ! j)) (fst (inputs ! i)) (fst (snd (inputs ! i)))
       (snd (snd (inputs ! i)))"
      using pid_trace_nth_Suc [of j inputs pid_new] assms j by simp
    show "fst (?tr ! i) = fst (?tr ! (i - 1)) \<and> snd (?tr ! i) = snd (?tr ! (i - 1))"
      using h prev j unfolding step by (simp add: pid_update_def Let_def)
  qed
  show ?thesis using range first skip by (simp add: Let_def)
qed

text \<open>
  The contract at a concrete sequence: the second update comes 5 ms after the first and
  repeats its output 1.0; the third is accepted and computes 1.2826.
\<close>

theorem pid_update_contract_witness:
  "(1::nat) < length [(100::real, 50::real, 10::real), (100, 50, 10.005), (100, 60, 11)] \<and>
   (10.005::real)
     - pid_last_time (snd (pid_trace pid_new [(100, 50, 10), (100, 50, 10.005), (100, 60, 11)] ! 0))
     \<le> 0.01 \<and>
   fst (pid_trace pid_new [(100, 50, 10), (100, 50, 10.005), (100, 60, 11)] ! 1) = 1 \<and>
   fst (pid_trace pid_new [(100, 50, 10), (100, 50, 10.005), (100, 60, 11)] ! 0) = 1 \<and>
   fst (pid_trace pid_new [(100, 50, 10), (100, 50, 10.005), (100, 60, 11)] ! 2) = 1.2826"
  using pid_update_contract [of 1 "[(100, 50, 10), (100, 50, 10.005), (100, 60, 11)]"]
  by (simp add: pid_update_def pid_new_def Let_def safe_div_def clamp_def)

section \<open>The Kalman filter\<close>

text \<open>
  C3, as stated: for every sequence of non-negative measurements the speed estimate is
  non-negative after every update. It is not: the filter carries an acceleration, and
  after a drop from 50000000 B/s to 0 the next prediction is negative. Fed 50000000, 0, 0
  at one-second intervals, the engine's filter ends with a negative speed.
\<close>

theorem kalman_speed_negative_counterexample:
  "speed (kalman_run (kalman_new 0.1 0.05 0.5) [(50000000, 1000), (0, 1001), (0, 1002)])
     = - (624687500000 / 25097511) \<and>
   speed (kalman_run (kalman_new 0.1 0.05 0.5) [(50000000, 1000), (0, 1001), (0, 1002)]) < 0"
  by (simp add: kalman_update_def kalman_new_def Let_def)

lemma psd_predict:
  fixes a b c d :: real
  assumes "0 \<le> a" "0 \<le> c" "b * b \<le> a * c"
  shows "(b + d * c) * (b + d * c) \<le> (a + d * (b + b) + d * d * c) * c"
    and "0 \<le> a + d * (b + b) + d * d * c"
proof -
  have e: "(a + d * (b + b) + d * d * c) * c - (b + d * c) * (b + d * c) = a * c - b * b"
    by (simp add: algebra_simps)
  with assms(3) show 1: "(b + d * c) * (b + d * c) \<le> (a + d * (b + b) + d * d * c) * c"
    by linarith
  show "0 \<le> a + d * (b + b) + d * d * c"
  proof (cases "c = 0")
    case True
    with assms(3) have "b * b \<le> 0" by simp
    then have "b = 0" by (auto simp: mult_le_0_iff)
    with True assms(1) show ?thesis by simp
  next
    case False
    with assms(2) have c: "0 < c" by simp
    have "0 \<le> (b + d * c) * (b + d * c)" by simp
    with 1 have "0 \<le> (a + d * (b + b) + d * d * c) * c" by linarith
    with c show ?thesis by (simp add: zero_le_mult_iff)
  qed
qed

lemma psd_update:
  fixes A B C r s :: real
  assumes "0 \<le> A" "0 \<le> C" "B * B \<le> A * C" "0 < r" "s = A + r"
  shows "0 \<le> (1 - A / s) * A"
    and "(1 - A / s) * B = - (B / s) * A + B"
    and "0 \<le> - (B / s) * B + C"
    and "((1 - A / s) * B) * ((1 - A / s) * B) \<le> ((1 - A / s) * A) * (- (B / s) * B + C)"
    and "0 \<le> A / s" and "A / s \<le> 1"
proof -
  have s: "0 < s" using assms by simp
  have k: "1 - A / s = r / s" using s assms(5) by (simp add: field_simps)
  show "0 \<le> A / s" using s assms(1) by simp
  show "A / s \<le> 1" using s assms by simp
  show "0 \<le> (1 - A / s) * A" unfolding k using s assms by simp
  show "(1 - A / s) * B = - (B / s) * A + B" using s by (simp add: field_simps)
  have cs: "B * B \<le> C * s"
  proof -
    have "0 \<le> C * r" using assms by simp
    then show ?thesis using assms(3,5) by (simp add: algebra_simps)
  qed
  have p11: "- (B / s) * B + C = (C * s - B * B) / s" using s by (simp add: field_simps)
  show "0 \<le> - (B / s) * B + C" unfolding p11 using cs s by simp
  have e1: "((r / s) * A) * ((C * s - B * B) / s) - ((r / s) * B) * ((r / s) * B)
        = ((r * A) * (C * s - B * B) - (r * B) * (r * B)) / (s * s)"
    using s by (simp add: field_simps)
  have e2: "(r * A) * (C * s - B * B) - (r * B) * (r * B) = r * s * (A * C - B * B)"
    unfolding assms(5) by (simp add: algebra_simps)
  have e3: "(r * s * (A * C - B * B)) / (s * s) = (r / s) * (A * C - B * B)"
    using s by (simp add: field_simps)
  have "((r / s) * A) * ((C * s - B * B) / s) - ((r / s) * B) * ((r / s) * B)
        = (r / s) * (A * C - B * B)"
    unfolding e1 e2 e3 ..
  moreover have "0 \<le> (r / s) * (A * C - B * B)" using s assms by simp
  ultimately show "((1 - A / s) * B) * ((1 - A / s) * B) \<le> ((1 - A / s) * A) * (- (B / s) * B + C)"
    unfolding k p11 by linarith
qed

lemma convex_nonneg:
  fixes g x m :: real
  assumes "0 \<le> g" "g \<le> 1" "0 \<le> x" "0 \<le> m"
  shows "0 \<le> x + g * (m - x)"
proof -
  have "x + g * (m - x) = (1 - g) * x + g * m" by (simp add: algebra_simps)
  moreover have "0 \<le> (1 - g) * x" using assms by simp
  moreover have "0 \<le> g * m" using assms by simp
  ultimately show ?thesis by linarith
qed

lemma kalman_update_step:
  assumes c: "cov_ok k" and sp: "0 \<le> speed k" and m: "0 \<le> m" and pr: "prediction_nonneg k now"
  shows "cov_ok (snd (kalman_update k m now)) \<and> 0 \<le> speed (snd (kalman_update k m now))"
proof (cases "k_initialized k \<and> \<not> now - k_last_time k \<le> 0.01")
  case False
  then show ?thesis using c sp m
    by (auto simp: kalman_update_def cov_ok_def Let_def)
next
  case True
  define d where "d = now - k_last_time k"
  define A where "A = p00 k + d * (p10 k + p01 k) + d * d * p11 k + q_speed k"
  define B where "B = p01 k + d * p11 k"
  define C where "C = p11 k + q_accel k"
  define s where "s = A + r_noise k"
  have sym: "p10 k = p01 k" using c by (simp add: cov_ok_def)
  have c1: "0 \<le> p00 k" and c2: "0 \<le> p11 k" and c3: "p01 k * p01 k \<le> p00 k * p11 k"
    using c unfolding cov_ok_def by blast+
  note pre = psd_predict [OF c1 c2 c3, of d]
  have A0: "0 \<le> A" using pre(2) c by (simp add: A_def sym cov_ok_def)
  have C0: "0 \<le> C" using c by (simp add: C_def cov_ok_def)
  have BB: "B * B \<le> A * C"
  proof -
    let ?a = "p00 k + d * (p01 k + p01 k) + d * d * p11 k"
    have "B * B \<le> ?a * p11 k" using pre(1) by (simp add: B_def)
    also have "\<dots> \<le> ?a * C" using pre(2) c by (simp add: C_def cov_ok_def mult_left_mono)
    also have "\<dots> \<le> A * C" using C0 c by (simp add: A_def sym cov_ok_def mult_right_mono)
    finally show ?thesis .
  qed
  have r0: "0 < r_noise k" using c by (simp add: cov_ok_def)
  note u = psd_update [OF A0 C0 BB r0 s_def]
  have pred: "0 \<le> speed k + accel k * d" using True pr by (simp add: prediction_nonneg_def d_def)
  show ?thesis
  proof (cases "\<bar>s\<bar> < 1 / 10 ^ 10")
    case small: True
    have eq: "snd (kalman_update k m now) = k\<lparr>k_last_time := now\<rparr>"
      using True small unfolding kalman_update_def Let_def d_def A_def s_def by simp
    show ?thesis using c sp by (auto simp: eq cov_ok_def)
  next
    case big: False
    have eq: "snd (kalman_update k m now) =
        k\<lparr>k_last_time := now,
          speed := (speed k + accel k * d) + A / s * (m - (speed k + accel k * d)),
          accel := accel k + B / s * (m - (speed k + accel k * d)),
          p00 := (1 - A / s) * A, p01 := (1 - A / s) * B,
          p10 := - (B / s) * A + B, p11 := - (B / s) * B + C\<rparr>"
      using True big unfolding kalman_update_def Let_def d_def A_def B_def C_def s_def sym
      by simp
    have sp': "0 \<le> speed k + accel k * d + A / s * (m - (speed k + accel k * d))"
      using convex_nonneg [OF u(5) u(6) pred m] .
    have "cov_ok (snd (kalman_update k m now))"
      unfolding eq cov_ok_def using u(1,3,4) u(2) c unfolding cov_ok_def by auto
    moreover have "0 \<le> speed (snd (kalman_update k m now))"
      unfolding eq using sp' by simp
    ultimately show ?thesis ..
  qed
qed

lemma kalman_speeds_nonneg:
  "cov_ok k \<Longrightarrow> 0 \<le> speed k \<Longrightarrow> list_all (\<lambda>(m, now). 0 \<le> m) xs \<Longrightarrow>
   predictions_nonneg k xs \<Longrightarrow> list_all (\<lambda>v. 0 \<le> v) (kalman_speeds k xs)"
proof (induction xs arbitrary: k)
  case Nil
  then show ?case by simp
next
  case (Cons x xs)
  obtain m now where x: "x = (m, now)" by (cases x) auto
  have st: "cov_ok (snd (kalman_update k m now)) \<and> 0 \<le> speed (snd (kalman_update k m now))"
    using kalman_update_step [of k m now] Cons.prems x by simp
  then have "list_all (\<lambda>v. 0 \<le> v) (kalman_speeds (snd (kalman_update k m now)) xs)"
    using Cons.IH [of "snd (kalman_update k m now)"] Cons.prems x by simp
  then show ?case using st x by (simp add: Let_def)
qed

text \<open>
  C3, amended: for every sequence of non-negative measurements fed to a filter built
  with \<open>r > 0\<close> and non-negative process noise, the speed estimate is non-negative
  after every update as long as the filter's own prediction \<open>speed + accel * dt\<close> at
  each accepted update is non-negative (the new estimate lies between the prediction and
  the measurement).
\<close>

theorem kalman_speed_nonneg_amended:
  assumes "0 < rn" "0 \<le> qs" "0 \<le> qa"
    and "list_all (\<lambda>(m, now). 0 \<le> m) xs"
    and "predictions_nonneg (kalman_new qs qa rn) xs"
  shows "list_all (\<lambda>v. 0 \<le> v) (kalman_speeds (kalman_new qs qa rn) xs)"
proof -
  have "cov_ok (kalman_new qs qa rn)" using assms(1-3) by (simp add: cov_ok_def kalman_new_def)
  moreover have "0 \<le> speed (kalman_new qs qa rn)" by (simp add: kalman_new_def)
  ultimately show ?thesis using kalman_speeds_nonneg assms(4,5) by blast
qed

theorem kalman_speed_nonneg_amended_witness:
  "(0::real) < 0.5 \<and> (0::real) \<le> 0.1 \<and> (0::real) \<le> 0.05 \<and>
   list_all (\<lambda>(m, now). 0 \<le> m) [(100::real, 1::real), (200, 2), (300, 3)] \<and>
   predictions_nonneg (kalman_new 0.1 0.05 0.5) [(100, 1), (200, 2), (300, 3)] \<and>
   list_all (\<lambda>v. 0 \<le> v) (kalman_speeds (kalman_new 0.1 0.05 0.5) [(100, 1), (200, 2), (300, 3)])"
  using kalman_speed_nonneg_amended [of "0.5" "0.1" "0.05" "[(100, 1), (200, 2), (300, 3)]"]
  by (simp add: kalman_update_def kalman_new_def Let_def prediction_nonneg_def)

section \<open>The precision tracker\<close>

lemma update_phase_bounds:
  assumes "\<forall>p. 0.92 \<le> adj p \<and> adj p \<le> (1.08::real)"
  shows "\<forall>p. 0.92 \<le> update_phase hist adj ph p \<and> update_phase hist adj ph p \<le> 1.08"
  using assms clamp_bounds [of "0.92::real" "1.08"]
  by (auto simp: update_phase_def Let_def)

lemma foldl_update_phase_bounds:
  "\<forall>p. 0.92 \<le> adj p \<and> adj p \<le> (1.08::real) \<Longrightarrow>
   \<forall>p. 0.92 \<le> foldl (update_phase hist) adj phs p \<and> foldl (update_phase hist) adj phs p \<le> 1.08"
proof (induction phs arbitrary: adj)
  case Nil
  then show ?case by simp
next
  case (Cons a phs)
  show ?case using Cons.IH [OF update_phase_bounds [OF Cons.prems]] by simp
qed

lemma tracker_update_inv: "tracker_inv tr \<Longrightarrow> tracker_inv (tracker_update tr)"
  using foldl_update_phase_bounds [of "phase_adj tr" "history tr" "phase_keys (history tr) []"]
    clamp_bounds [of "0.95::real" "1.05"]
  by (auto simp: tracker_inv_def tracker_update_def Let_def)

lemma tracker_record_inv: "tracker_inv tr \<Longrightarrow> tracker_inv (tracker_record tr ratio ph now)"
  unfolding tracker_record_def
  by (rule tracker_update_inv) (simp add: tracker_inv_def)

lemma tracker_run_inv: "tracker_inv tr \<Longrightarrow> tracker_inv (tracker_run tr xs)"
proof (induction xs arbitrary: tr)
  case Nil
  then show ?case by simp
next
  case (Cons x xs)
  obtain ratio ph now where x: "x = (ratio, ph, now)" by (cases x) auto
  show ?case using Cons.IH [OF tracker_record_inv [OF Cons.prems]] x by simp
qed

lemma product_bounds:
  fixes a b :: real
  assumes "0.92 \<le> a" "a \<le> 1.08" "0.95 \<le> b" "b \<le> 1.05"
  shows "0.92 * 0.95 \<le> a * b" and "a * b \<le> 1.08 * 1.05"
proof -
  have "0.92 * 0.95 \<le> a * (0.95::real)" using assms(1) by simp
  also have "\<dots> \<le> a * b" using assms(1,3) by (simp add: mult_left_mono)
  finally show "0.92 * 0.95 \<le> a * b" .
  have "a * b \<le> a * 1.05" using assms(1,4) by (simp add: mult_left_mono)
  also have "\<dots> \<le> 1.08 * 1.05" using assms(2) by simp
  finally show "a * b \<le> 1.08 * 1.05" .
qed

text \<open>
  C7: after every sequence of \<open>record\<close> calls on a new tracker, each per-phase
  adjustment lies in \<open>[0.92, 1.08]\<close>, the global adjustment lies in
  \<open>[0.95, 1.05]\<close>, and \<open>get_adjustment\<close> returns their product, which lies in
  \<open>[0.92 * 0.95, 1.08 * 1.05]\<close>.
\<close>

theorem precision_tracker_bounds:
  "0.92 \<le> phase_adj (tracker_run (precision_tracker_new w) records) ph \<and>
   phase_adj (tracker_run (precision_tracker_new w) records) ph \<le> 1.08 \<and>
   0.95 \<le> global_adj (tracker_run (precision_tracker_new w) records) \<and>
   global_adj (tracker_run (precision_tracker_new w) records) \<le> 1.05 \<and>
   get_adjustment (tracker_run (precision_tracker_new w) records) ph
     = phase_adj (tracker_run (precision_tracker_new w) records) ph
       * global_adj (tracker_run (precision_tracker_new w) records) \<and>
   0.92 * 0.95 \<le> get_adjustment (tracker_run (precision_tracker_new w) records) ph \<and>
   get_adjustment (tracker_run (precision_tracker_new w) records) ph \<le> 1.08 * 1.05"
proof -
  let ?tr = "tracker_run (precision_tracker_new w) records"
  have "tracker_inv (precision_tracker_new w)"
    by (simp add: tracker_inv_def precision_tracker_new_def)
  then have inv: "tracker_inv ?tr" by (rule tracker_run_inv)
  then have b: "0.92 \<le> phase_adj ?tr ph" "phase_adj ?tr ph \<le> 1.08"
    "0.95 \<le> global_adj ?tr" "global_adj ?tr \<le> 1.05"
    by (simp_all add: tracker_inv_def)
  from product_bounds [OF b] b show ?thesis by (simp add: get_adjustment_def)
qed


section \<open>The download limiter\<close>

lemma calc_dl_limit_cases:
  "fst (calc_dl_limit st total_done total_uploaded total_sz dl_speed now) = - 1 \<or>
   512 \<le> fst (calc_dl_limit st total_done total_uploaded total_sz dl_speed now)"
  unfolding calc_dl_limit_def Let_def DL_LIMIT_MIN_def
  by (simp del: max.bounded_iff add: max.cobounded1)

text \<open>
  C9: whenever \<open>calc_dl_limit\<close> returns a positive cap, the cap is at least
  \<open>DL_LIMIT_MIN = 512\<close> (KiB/s), whichever branch produced it.
\<close>

theorem calc_dl_limit_floor:
  "0 < fst (calc_dl_limit st total_done total_uploaded total_sz dl_speed now) \<Longrightarrow>
   DL_LIMIT_MIN \<le> fst (calc_dl_limit st total_done total_uploaded total_sz dl_speed now) \<and>
   DL_LIMIT_MIN = 512"
  using calc_dl_limit_cases [of st total_done total_uploaded total_sz dl_speed now]
  by (auto simp: DL_LIMIT_MIN_def)

theorem calc_dl_limit_floor_witness:
  "0 < fst (calc_dl_limit ((torrent_state_new ''h'')\<lparr>cycle_start := 1000\<rparr>)
             900000000 6000000000 1000000000 10000000 1100) \<and>
   calc_dl_limit ((torrent_state_new ''h'')\<lparr>cycle_start := 1000\<rparr>)
     900000000 6000000000 1000000000 10000000 1100 = (2197, DL_avg_over_limit) \<and>
   DL_LIMIT_MIN \<le> 2197"
  using calc_dl_limit_floor [of "(torrent_state_new ''h'')\<lparr>cycle_start := 1000\<rparr>"
      900000000 6000000000 1000000000 10000000 1100]
  by (simp add: calc_dl_limit_def torrent_state_new_def this_up_def this_time_def
      SPEED_LIMIT_def DL_LIMIT_MIN_def DL_LIMIT_MIN_TIME_def DL_LIMIT_BUFFER_def Let_def
      py_int_def)


section \<open>The controller at the announce boundary\<close>

text \<open>
  C10: for every phase, target, uploaded amount and elapsed time, when
  \<open>time_left \<le> 0\<close> the controller's \<open>calculate\<close> returns -1 with the "announcing"
  reason, the debug dictionary holds the predicted ratio only, and the controller is
  unchanged: no phase branch, PID update, quantisation or smoothing has run.
\<close>

theorem calculate_at_announce_boundary:
  "time_left \<le> 0 \<Longrightarrow>
   calculate c target uploaded time_left elapsed ph now precision_adj =
     ((- 1, R_announcing,
       debug_empty\<lparr>predicted_ratio :=
         Some (safe_div (real_of_int uploaded + predict_upload (lc_kalman c) time_left)
                 (target * precision_adj * (elapsed + time_left)) 0)\<rparr>), c)"
  by (simp add: calculate_def Let_def)

theorem calculate_at_announce_boundary_witness:
  "(0::real) \<le> 0 \<and>
   fst (calculate (controller_new engine_tuning) 51200 100000 0 300 Steady 1001 1)
     = (- 1, R_announcing, debug_empty\<lparr>predicted_ratio := Some (5 / 768)\<rparr>) \<and>
   snd (calculate (controller_new engine_tuning) 51200 100000 0 300 Steady 1001 1)
     = controller_new engine_tuning"
  using calculate_at_announce_boundary [of 0 "controller_new engine_tuning" 51200 100000 300 Steady 1001 1]
  by (simp add: safe_div_def predict_upload_def controller_new_def kalman_new_def)

section \<open>The overrides of the upload cap\<close>

text \<open>
  C1: \<open>_calculate_upload_limit\<close> applies its overrides in strict priority order. When
  the engine is paused it returns -1 with the "paused" reason; otherwise, when the
  session-wide real average upload speed exceeds \<open>SPEED_LIMIT * 1.05\<close>, it returns
  exactly \<open>MIN_LIMIT = 4096\<close> with the overspeed-brake reason; otherwise, when
  \<open>waiting_reannounce\<close> is set, it returns exactly \<open>5120 * 1024\<close> with the
  waiting-reannounce reason. In these three cases the state (and with it the controller)
  is untouched. Only otherwise is the controller's \<open>calculate\<close> run: its controller and
  debug output are stored, and the cap is the controller's or the progress-protected one.
\<close>

theorem calculate_upload_limit_priority:
  "(paused \<longrightarrow>
      calculate_upload_limit paused tn tracker st total_uploaded up_speed progress tleft now
        = ((- 1, UR_paused), st)) \<and>
   (\<not> paused \<and> get_real_avg_speed st total_uploaded now > SPEED_LIMIT * 1.05 \<longrightarrow>
      calculate_upload_limit paused tn tracker st total_uploaded up_speed progress tleft now
        = ((4096, UR_overspeed_brake), st)) \<and>
   (\<not> paused \<and> \<not> get_real_avg_speed st total_uploaded now > SPEED_LIMIT * 1.05 \<and>
    waiting_reannounce st \<longrightarrow>
      calculate_upload_limit paused tn tracker st total_uploaded up_speed progress tleft now
        = ((5120 * 1024, UR_waiting_reannounce), st)) \<and>
   (\<not> paused \<and> \<not> get_real_avg_speed st total_uploaded now > SPEED_LIMIT * 1.05 \<and>
    \<not> waiting_reannounce st \<longrightarrow>
      (let r = calculate (case limit_controller st of None \<Rightarrow> controller_new tn | Some c \<Rightarrow> c)
                 (real_of_int (target_speed st)) (this_up st total_uploaded) tleft
                 (max 0 (now - cycle_start st)) (get_phase st tleft) now
                 (get_adjustment tracker (get_phase st tleft));
           res = calculate_upload_limit paused tn tracker st total_uploaded up_speed progress
                   tleft now
       in snd res = st\<lparr>limit_controller := Some (snd r),
                        last_debug := Some (snd (snd (fst r)))\<rparr> \<and>
          (fst res = (fst (fst r), UR_controller (fst (snd (fst r))) False) \<or>
           fst res = (max 4096 (target_speed st), UR_controller (fst (snd (fst r))) True))))"
  by (simp add: calculate_upload_limit_def MIN_LIMIT_def REANNOUNCE_WAIT_LIMIT_def Let_def)

lemma real_avg_examples:
  "get_real_avg_speed ((torrent_state_new ''h'')\<lparr>session_start_time := 1000\<rparr>) 6000000000 1100
     = 60000000"
  "get_real_avg_speed ((torrent_state_new ''h'')\<lparr>waiting_reannounce := True\<rparr>) 6000000000 1100 = 0"
  "get_real_avg_speed (torrent_state_new ''h'') 6000000000 1100 = 0"
  by (simp_all add: get_real_avg_speed_def torrent_state_new_def)

theorem calculate_upload_limit_priority_witness:
  "calculate_upload_limit True engine_tuning precision_tracker_global
     (torrent_state_new ''h'') 6000000000 0 0 1000 1100
     = ((- 1, UR_paused), torrent_state_new ''h'') \<and>
   get_real_avg_speed ((torrent_state_new ''h'')\<lparr>session_start_time := 1000\<rparr>) 6000000000 1100
     > SPEED_LIMIT * 1.05 \<and>
   calculate_upload_limit False engine_tuning precision_tracker_global
     ((torrent_state_new ''h'')\<lparr>session_start_time := 1000\<rparr>) 6000000000 0 0 1000 1100
     = ((4096, UR_overspeed_brake), (torrent_state_new ''h'')\<lparr>session_start_time := 1000\<rparr>) \<and>
   \<not> get_real_avg_speed ((torrent_state_new ''h'')\<lparr>waiting_reannounce := True\<rparr>) 6000000000 1100
     > SPEED_LIMIT * 1.05 \<and>
   calculate_upload_limit False engine_tuning precision_tracker_global
     ((torrent_state_new ''h'')\<lparr>waiting_reannounce := True\<rparr>) 6000000000 0 0 1000 1100
     = ((5242880, UR_waiting_reannounce), (torrent_state_new ''h'')\<lparr>waiting_reannounce := True\<rparr>) \<and>
   \<not> waiting_reannounce (torrent_state_new ''h'') \<and>
   limit_controller (snd (calculate_upload_limit False engine_tuning precision_tracker_global
     (torrent_state_new ''h'') 6000000000 0 0 1000 1100)) \<noteq> None"
  using calculate_upload_limit_priority [of True engine_tuning precision_tracker_global
      "torrent_state_new ''h''" 6000000000 0 0 1000 1100]
    calculate_upload_limit_priority [of False engine_tuning precision_tracker_global
      "(torrent_state_new ''h'')\<lparr>session_start_time := 1000\<rparr>" 6000000000 0 0 1000 1100]
    calculate_upload_limit_priority [of False engine_tuning precision_tracker_global
      "(torrent_state_new ''h'')\<lparr>waiting_reannounce := True\<rparr>" 6000000000 0 0 1000 1100]
    calculate_upload_limit_priority [of False engine_tuning precision_tracker_global
      "torrent_state_new ''h''" 6000000000 0 0 1000 1100]
  by (simp add: real_avg_examples SPEED_LIMIT_def Let_def) (simp add: torrent_state_new_def)

section \<open>Forced reannounces\<close>

lemma new_cycle_keeps:
  "last_reannounce (new_cycle st now up tleft j) = last_reannounce st"
  "waiting_reannounce (new_cycle st now up tleft j) = waiting_reannounce st"
  "cycle_start (new_cycle st now up tleft j) = now"
  by (simp_all add: new_cycle_def Let_def split: option.split)

lemma pt_observe_keeps:
  "last_reannounce (pt_observe st tk) = last_reannounce st"
  "waiting_reannounce (pt_observe st tk) = waiting_reannounce st"
  "cycle_start (pt_observe st tk) =
     (if cycle_start st = 0 \<or> (cycle_start st > 0 \<and> t_tleft tk > prev_time_left st + 30)
      then t_now tk else cycle_start st)"
  by (simp_all add: pt_observe_def Let_def new_cycle_keeps)

lemma calculate_upload_limit_keeps:
  "last_reannounce (snd (calculate_upload_limit p tn tr st u s pr tleft now)) = last_reannounce st"
  "waiting_reannounce (snd (calculate_upload_limit p tn tr st u s pr tleft now)) = waiting_reannounce st"
  "reannounced_this_cycle (snd (calculate_upload_limit p tn tr st u s pr tleft now)) = reannounced_this_cycle st"
  "cycle_start (snd (calculate_upload_limit p tn tr st u s pr tleft now)) = cycle_start st"
  by (simp_all add: calculate_upload_limit_def Let_def)

lemma pt_limits_keeps:
  "last_reannounce (fst (pt_limits tn st tk)) = last_reannounce st"
  "waiting_reannounce (fst (pt_limits tn st tk)) = waiting_reannounce st"
  "reannounced_this_cycle (fst (pt_limits tn st tk)) = reannounced_this_cycle st"
  "cycle_start (fst (pt_limits tn st tk)) = cycle_start st"
  by (simp_all add: pt_limits_def Let_def calculate_upload_limit_keeps)

lemma pt_waiting_spec:
  "snd (pt_waiting st tk) = [] \<and> last_reannounce (fst (pt_waiting st tk)) = last_reannounce st \<and>
     (waiting_reannounce (fst (pt_waiting st tk)) \<longrightarrow> waiting_reannounce st) \<and>
     reannounced_this_cycle (fst (pt_waiting st tk)) = reannounced_this_cycle st \<and>
     cycle_start (fst (pt_waiting st tk)) = cycle_start st
   \<or>
   snd (pt_waiting st tk) = [(t_now tk, t_clock1 tk, RA_avg_recovered)] \<and> waiting_reannounce st \<and>
     900 \<le> t_now tk - cycle_start st \<and>
     last_reannounce (fst (pt_waiting st tk)) = t_clock1 tk \<and>
     \<not> waiting_reannounce (fst (pt_waiting st tk)) \<and>
     reannounced_this_cycle (fst (pt_waiting st tk)) \<and>
     cycle_start (fst (pt_waiting st tk)) = cycle_start st"
  by (simp add: pt_waiting_def check_waiting_reannounce_def do_reannounce_def Let_def
      this_time_def REANNOUNCE_MIN_INTERVAL_def)

lemma should_reannounce_shape:
  assumes "T = this_time st now"
    and "U = real_of_int (this_up st u)"
    and "avg = get_avg_speeds (speed_tracker st) clk REANNOUNCE_SPEED_SAMPLES"
    and "E = (if U / T > SPEED_LIMIT then dsum ((U - SPEED_LIMIT * T) / (45 * 1024 * 1024)) now
              else now)"
    and "P = real_of_int (sz - d) / snd avg + now
              - real_of_int (get_announce_interval st now) * SPEED_LIMIT / fst avg"
  shows "should_reannounce dsum st d u sz now clk =
     (if last_reannounce st > 0 \<and> now - last_reannounce st < 900 then ((False, RA_none), st)
      else if T < 30 then ((False, RA_none), st)
      else if fst avg \<le> SPEED_LIMIT \<or> snd avg \<le> 0 then ((False, RA_none), st)
      else if real_of_int (sz - d) \<le> 0 then ((False, RA_none), st)
      else if E - (now - T) < 900 then ((False, RA_none), st)
      else if E > P then
        (if now \<ge> E then
           (if U / T > SPEED_LIMIT then ((True, RA_optimised), st) else ((False, RA_none), st))
         else
           (if E < P + 60 then ((False, RA_waiting), st\<lparr>waiting_reannounce := True\<rparr>)
            else ((False, RA_none), st)))
      else ((False, RA_none), st))"
  unfolding should_reannounce_def Let_def REANNOUNCE_MIN_INTERVAL_def assms
  by (simp split del: if_split cong: if_cong)

text \<open>
  What a decision implies, whatever the double sum gives: the state keeps its last
  reannounce time and its cycle start; the wait is only set, and the reannounce only
  decided, once the 900 second guard on the last reannounce has passed; and a decided
  reannounce comes at least 900 seconds into the cycle.
\<close>

lemma should_reannounce_spec:
  "last_reannounce (snd (should_reannounce dsum st d u sz now clk)) = last_reannounce st"
  "cycle_start (snd (should_reannounce dsum st d u sz now clk)) = cycle_start st"
  "waiting_reannounce (snd (should_reannounce dsum st d u sz now clk)) \<Longrightarrow>
     waiting_reannounce st \<or> last_reannounce st \<le> 0 \<or> last_reannounce st + 900 \<le> now"
  "fst (fst (should_reannounce dsum st d u sz now clk)) \<Longrightarrow>
     (last_reannounce st \<le> 0 \<or> last_reannounce st + 900 \<le> now) \<and>
     900 \<le> now - cycle_start st \<and>
     snd (fst (should_reannounce dsum st d u sz now clk)) = RA_optimised \<and>
     snd (should_reannounce dsum st d u sz now clk) = st"
proof -
  define T where "T = this_time st now"
  define U where "U = real_of_int (this_up st u)"
  define avg where "avg = get_avg_speeds (speed_tracker st) clk REANNOUNCE_SPEED_SAMPLES"
  define E where "E = (if U / T > SPEED_LIMIT
    then dsum ((U - SPEED_LIMIT * T) / (45 * 1024 * 1024)) now else now)"
  define P where "P = real_of_int (sz - d) / snd avg + now
              - real_of_int (get_announce_interval st now) * SPEED_LIMIT / fst avg"
  note sh = should_reannounce_shape [where dsum = dsum, OF T_def U_def avg_def E_def P_def]
  have T: "900 \<le> T \<Longrightarrow> 900 \<le> now - cycle_start st"
    by (simp add: T_def this_time_def)
  show "last_reannounce (snd (should_reannounce dsum st d u sz now clk)) = last_reannounce st"
    unfolding sh by simp
  show "cycle_start (snd (should_reannounce dsum st d u sz now clk)) = cycle_start st"
    unfolding sh by simp
  show "waiting_reannounce (snd (should_reannounce dsum st d u sz now clk)) \<Longrightarrow>
     waiting_reannounce st \<or> last_reannounce st \<le> 0 \<or> last_reannounce st + 900 \<le> now"
    unfolding sh by (auto split: if_splits)
  show "fst (fst (should_reannounce dsum st d u sz now clk)) \<Longrightarrow>
     (last_reannounce st \<le> 0 \<or> last_reannounce st + 900 \<le> now) \<and>
     900 \<le> now - cycle_start st \<and>
     snd (fst (should_reannounce dsum st d u sz now clk)) = RA_optimised \<and>
     snd (should_reannounce dsum st d u sz now clk) = st"
    unfolding sh using T by (auto split: if_splits)
qed

text \<open>
  With the exact sum the "optimised" decision never fires: it needs \<open>now >= earliest\<close>
  together with a cycle average above \<open>SPEED_LIMIT\<close>, and with such an average the
  exact \<open>earliest\<close> lies strictly after \<open>now\<close>. With the machine's sum it does fire,
  as the second pass of the example shows.
\<close>

lemma should_reannounce_exact_sum_never_true:
  "\<not> fst (fst (should_reannounce (+) st d u sz now clk))"
proof
  assume yes: "fst (fst (should_reannounce (+) st d u sz now clk))"
  define T where "T = this_time st now"
  define U where "U = real_of_int (this_up st u)"
  define avg where "avg = get_avg_speeds (speed_tracker st) clk REANNOUNCE_SPEED_SAMPLES"
  define E where "E = (if U / T > SPEED_LIMIT
    then (U - SPEED_LIMIT * T) / (45 * 1024 * 1024) + now else now)"
  define P where "P = real_of_int (sz - d) / snd avg + now
              - real_of_int (get_announce_interval st now) * SPEED_LIMIT / fst avg"
  note sh = should_reannounce_shape [where dsum = "(+)", OF T_def U_def avg_def E_def P_def]
  from yes have f: "\<not> T < 30" "E \<le> now" "SPEED_LIMIT < U / T"
    unfolding sh by (auto split: if_splits)
  from f(1) have T: "0 < T" by simp
  with f(3) have "SPEED_LIMIT * T < U" by (simp add: pos_less_divide_eq)
  then have "0 < (U - SPEED_LIMIT * T) / (45 * 1024 * 1024)" by simp
  then have "now < E" using f(3) by (simp add: E_def)
  with f(2) show False by simp
qed

lemma should_reannounce_optimised_example:
  "fst (should_reannounce double_sum_epoch
     ((created_state engine_tuning ''abc'')
        \<lparr>cycle_start := 1700001000, speed_tracker := [(1700002000, 500000000, 1000000)]\<rparr>)
     900000000 52428800001 1000000000 1700002000 1700002000.5)
   = (True, RA_optimised)"
  by code_simp

lemma pt_decide_spec:
  "snd (pt_decide st tk) = [] \<and> last_reannounce (fst (pt_decide st tk)) = last_reannounce st \<and>
     cycle_start (fst (pt_decide st tk)) = cycle_start st \<and>
     (waiting_reannounce (fst (pt_decide st tk)) \<longrightarrow>
        waiting_reannounce st \<or> last_reannounce st \<le> 0 \<or> last_reannounce st + 900 \<le> t_now tk)
   \<or>
   snd (pt_decide st tk) = [(t_now tk, t_clock2 tk, RA_optimised)] \<and>
     (last_reannounce st \<le> 0 \<or> last_reannounce st + 900 \<le> t_now tk) \<and>
     900 \<le> t_now tk - cycle_start st \<and>
     \<not> reannounced_this_cycle st \<and>
     last_reannounce (fst (pt_decide st tk)) = t_clock2 tk \<and>
     cycle_start (fst (pt_decide st tk)) = cycle_start st \<and>
     \<not> waiting_reannounce (fst (pt_decide st tk))"
proof (cases "t_any_reannounce_opt tk \<and> \<not> reannounced_this_cycle st")
  case False
  then show ?thesis by (auto simp: pt_decide_def)
next
  case True
  let ?r = "should_reannounce (t_double_sum tk) st (t_downloaded tk) (t_uploaded tk)
              (t_total_size tk) (t_now tk) (t_clock_avg tk)"
  note sp = should_reannounce_spec [of "t_double_sum tk" st "t_downloaded tk" "t_uploaded tk"
      "t_total_size tk" "t_now tk" "t_clock_avg tk"]
  show ?thesis
  proof (cases "fst (fst ?r)")
    case no: False
    have "pt_decide st tk = (snd ?r, [])" using True no by (simp add: pt_decide_def Let_def)
    then show ?thesis using sp(1,2,3) by auto
  next
    case yes: True
    have e: "pt_decide st tk =
        (do_reannounce st (t_rpc2_ok tk) (t_clock2 tk),
         if t_rpc2_ok tk then [(t_now tk, t_clock2 tk, RA_optimised)] else [])"
      using True yes sp(4) by (simp add: pt_decide_def Let_def)
    show ?thesis using sp(4) [OF yes] True unfolding e by (auto simp: do_reannounce_def)
  qed
qed

lemma engine_pass_spec:
  assumes inv: "life_inv st t m l"
    and ok: "0 < t_now tk" "t \<le> t_now tk" "t_now tk \<le> t_clock1 tk" "t_now tk \<le> t_clock2 tk"
      "keeps_reannounce_fields (t_before tk)"
  shows "snd (engine_pass tn st tk) = [] \<and>
       life_inv (fst (engine_pass tn st tk)) (t_now tk) (max m (max (t_clock1 tk) (t_clock2 tk))) l
     \<or>
     (\<exists>c rs. snd (engine_pass tn st tk) = [(t_now tk, c, rs)] \<and> t_now tk \<le> c \<and>
        (0 < l \<longrightarrow> l + 900 \<le> t_now tk) \<and>
        life_inv (fst (engine_pass tn st tk)) (t_now tk)
          (max m (max (t_clock1 tk) (t_clock2 tk))) c)"
proof -
  define s0 where "s0 = t_before tk st"
  define s1 where "s1 = pt_observe s0 tk"
  define w where "w = pt_waiting s1 tk"
  define lm where "lm = pt_limits tn (fst w) tk"
  define d where "d = pt_decide (fst lm) tk"
  have k0: "last_reannounce s0 = last_reannounce st" "waiting_reannounce s0 = waiting_reannounce st"
    "cycle_start s0 = cycle_start st"
    using ok(5) by (simp_all add: s0_def keeps_reannounce_fields_def)
  have k1: "last_reannounce s1 = last_reannounce st" "waiting_reannounce s1 = waiting_reannounce st"
    by (simp_all add: s1_def pt_observe_keeps k0)
  have c1: "cycle_start s1 = t_now tk \<or> cycle_start s1 = cycle_start st \<and> cycle_start st \<noteq> 0"
    by (auto simp: s1_def pt_observe_keeps k0)
  have kl: "last_reannounce (fst lm) = last_reannounce (fst w)"
    "waiting_reannounce (fst lm) = waiting_reannounce (fst w)"
    "reannounced_this_cycle (fst lm) = reannounced_this_cycle (fst w)"
    "cycle_start (fst lm) = cycle_start (fst w)"
    by (simp_all add: lm_def pt_limits_keeps)
  have res: "fst (engine_pass tn st tk) = (fst d)\<lparr>last_limit := fst (snd lm)\<rparr>"
    "snd (engine_pass tn st tk) = snd w @ snd d"
    by (simp_all add: engine_pass_def process_torrent_def Let_def s0_def s1_def w_def lm_def d_def)
  have lr: "last_reannounce (fst (engine_pass tn st tk)) = last_reannounce (fst d)"
    "waiting_reannounce (fst (engine_pass tn st tk)) = waiting_reannounce (fst d)"
    "cycle_start (fst (engine_pass tn st tk)) = cycle_start (fst d)"
    by (simp_all add: res)
  note ws = pt_waiting_spec [of s1 tk, folded w_def]
  note ds = pt_decide_spec [of "fst lm" tk, folded d_def]
  from inv have a: "\<not> waiting_reannounce st \<or> last_reannounce st \<le> 0 \<or> last_reannounce st + 900 \<le> t"
    and b: "l \<le> m"
    and c: "last_reannounce st = l \<or>
       last_reannounce st \<le> 0 \<and> l \<le> t \<and> (cycle_start st = 0 \<or> l \<le> cycle_start st)"
    by (simp_all add: life_inv_def ra_inv_def)
  show ?thesis
    unfolding life_inv_def ra_inv_def lr res(2)
    using ws ds a b c c1 ok(1-4) unfolding kl k1
    by (elim disjE conjE) auto
qed


lemma created_state_inv:
  "l \<le> m \<Longrightarrow> life_inv (created_state tn h) (max t m) m l"
  by (simp add: life_inv_def ra_inv_def created_state_def torrent_state_new_def
      le_max_iff_disj)

lemma run_steps_spaced:
  "life_inv st t m l \<Longrightarrow> steps_ok t m ss \<Longrightarrow>
   sorted_wrt (\<lambda>e1 e2. fst (snd e1) + 900 \<le> fst e2) (run_steps tn st ss) \<and>
   (\<forall>e \<in> set (run_steps tn st ss). 0 < l \<longrightarrow> l + 900 \<le> fst e)"
proof (induction ss arbitrary: st t m l)
  case Nil
  then show ?case by simp
next
  case (Cons s ss)
  show ?case
  proof (cases s)
    case Evict
    have lm: "l \<le> m" using Cons.prems(1) by (simp add: life_inv_def)
    have "steps_ok (max t m) m ss" using Cons.prems(2) Evict by simp
    from Cons.IH [OF created_state_inv [OF lm] this] show ?thesis using Evict by simp
  next
    case (Pass tk)
    let ?r = "engine_pass tn st tk"
    let ?m = "max m (max (t_clock1 tk) (t_clock2 tk))"
    from Cons.prems(2) Pass have ok: "0 < t_now tk" "t \<le> t_now tk" "t_now tk \<le> t_clock1 tk"
      "t_now tk \<le> t_clock2 tk" "keeps_reannounce_fields (t_before tk)"
      and rest: "steps_ok (t_now tk) ?m ss" by simp_all
    from engine_pass_spec [OF Cons.prems(1) ok, of tn]
    show ?thesis
    proof
      assume a: "snd ?r = [] \<and> life_inv (fst ?r) (t_now tk) ?m l"
      then have "life_inv (fst ?r) (t_now tk) ?m l" by simp
      from Cons.IH [OF this rest] show ?thesis using a Pass by (simp add: Let_def)
    next
      assume "\<exists>c rs. snd ?r = [(t_now tk, c, rs)] \<and> t_now tk \<le> c \<and>
        (0 < l \<longrightarrow> l + 900 \<le> t_now tk) \<and> life_inv (fst ?r) (t_now tk) ?m c"
      then obtain c rs where a: "snd ?r = [(t_now tk, c, rs)]" "t_now tk \<le> c"
        "0 < l \<longrightarrow> l + 900 \<le> t_now tk" "life_inv (fst ?r) (t_now tk) ?m c" by blast
      have cpos: "0 < c" using ok(1) a(2) by simp
      from Cons.IH [OF a(4) rest] cpos
      have ih: "sorted_wrt (\<lambda>e1 e2. fst (snd e1) + 900 \<le> fst e2) (run_steps tn (fst ?r) ss)"
        "\<forall>e \<in> set (run_steps tn (fst ?r) ss). c + 900 \<le> fst e" by simp_all
      have run: "run_steps tn st (s # ss) = (t_now tk, c, rs) # run_steps tn (fst ?r) ss"
        using Pass a(1) by (simp add: Let_def)
      have "\<forall>e \<in> set (run_steps tn (fst ?r) ss). 0 < l \<longrightarrow> l + 900 \<le> fst e"
      proof (intro ballI impI)
        fix e assume "e \<in> set (run_steps tn (fst ?r) ss)" and "0 < l"
        then have "c + 900 \<le> fst e" "l + 900 \<le> t_now tk" using ih(2) a(3) by simp_all
        then show "l + 900 \<le> fst e" using a(2) by simp
      qed
      then show ?thesis unfolding run using ih a(3) by simp
    qed
  qed
qed

text \<open>
  C6: over the life of a torrent's state (any sequence of passes of the engine, and of
  evictions followed by the creation of a new state), two forced reannounces are never
  less than 900 seconds apart: each one is issued in a pass whose \<open>now\<close> is at least
  900 seconds after the time recorded for the one before it, whether it comes from the
  "optimised" decision or from the resolution of a wait, and at least 900 seconds after
  a reannounce already recorded in the starting state.
\<close>

theorem reannounce_min_interval:
  assumes "steps_ok t m ss" and "ra_inv st t" and "last_reannounce st \<le> m"
  shows "sorted_wrt (\<lambda>e1 e2. fst (snd e1) + 900 \<le> fst e2) (run_steps tn st ss) \<and>
     (\<forall>e \<in> set (run_steps tn st ss).
        0 < last_reannounce st \<longrightarrow> last_reannounce st + 900 \<le> fst e)"
proof -
  have "life_inv st t m (last_reannounce st)"
    using assms(2,3) by (simp add: life_inv_def)
  from run_steps_spaced [OF this assms(1)] show ?thesis .
qed

text \<open>
  The example life: the first reannounce is the "optimised" one, the second comes from
  the resolution of a wait in a state created after the eviction, 1009.5 seconds after
  the first.
\<close>

lemma example_steps_ok: "steps_ok 0 0 example_steps"
  by (simp add: example_steps_def example_pass_def keeps_reannounce_fields_def)

lemma example_steps_run:
  "run_steps engine_tuning (created_state engine_tuning ''abc'') example_steps
     = [(1700002000, 1700002000.5, RA_optimised), (1700003010, 1700003010.5, RA_avg_recovered)]"
  by code_simp

theorem reannounce_min_interval_witness:
  "steps_ok 0 0 example_steps \<and> ra_inv (created_state engine_tuning ''abc'') 0 \<and>
   last_reannounce (created_state engine_tuning ''abc'') \<le> 0 \<and>
   run_steps engine_tuning (created_state engine_tuning ''abc'') example_steps
     = [(1700002000, 1700002000.5, RA_optimised), (1700003010, 1700003010.5, RA_avg_recovered)] \<and>
   sorted_wrt (\<lambda>e1 e2. fst (snd e1) + 900 \<le> fst e2)
     (run_steps engine_tuning (created_state engine_tuning ''abc'') example_steps)"
  using reannounce_min_interval [of 0 0 example_steps "created_state engine_tuning ''abc''"
      engine_tuning]
    example_steps_ok example_steps_run
  by (simp add: ra_inv_def created_state_def torrent_state_new_def)

section \<open>Eviction of stale states\<close>

text \<open>
  C8 says that a state whose hash was in the active list within the last two hours is
  never removed. The cleanup keys on the age of the session instead: the torrent below
  was first seen at time 1000 and seen again at time 8200; five seconds later it is
  missing from the active list once, and the cleanup removes its state.
\<close>

theorem cleanup_evicts_recently_seen:
  "map_option session_start_time (seen_at_8200 ''abc'') = Some 1000 \<and>
   cleanup_states seen_at_8200 {} 8205 ''abc'' = None"
  by (simp add: seen_at_8200_def seen_at_1000_def cleanup_states_def observe_torrent_def
      created_state_def torrent_state_new_def Let_def)

text \<open>What the cleanup does decide on: the membership in the active list and the session age.\<close>

lemma cleanup_states_removes_iff:
  "sts h = Some st \<Longrightarrow>
   (cleanup_states sts active now h = None) =
     (h \<notin> active \<and> 0 < session_start_time st \<and> 7200 < now - session_start_time st)"
  by (simp add: cleanup_states_def)

section \<open>Persistence\<close>

text \<open>
  The two calls of the persistence functions against the object of \<open>database.py\<close>: the
  class has \<open>get_all_torrent_limit_states\<close> but no \<open>get_torrent_limit_states\<close>, and its
  \<open>save_torrent_limit_state\<close> is there but takes none of the keywords.
\<close>

lemma database_get_torrent_limit_states:
  "py_getattr database ''get_torrent_limit_states'' = Inl AttributeError"
  by (simp add: py_getattr_def database_def)

lemma database_save_torrent_limit_state:
  "py_getattr database ''save_torrent_limit_state'' = Inr ()"
  "py_bind_keywords (db_save_parameters database) save_keywords = Inl TypeError"
  by (simp_all add: py_getattr_def py_bind_keywords_def database_def save_keywords_def)

lemma restore_states_from_db_database:
  "restore_states_from_db tn now database rows sts = sts"
  by (simp add: restore_states_from_db_def database_get_torrent_limit_states)

lemma save_states_to_db_database:
  "save_states_to_db database write d items = d"
  unfolding save_states_to_db_def
  by (induction items arbitrary: d) (simp_all add: database_save_torrent_limit_state split: prod.split)

text \<open>
  For comparison, an object that has the two methods as the engine calls them: every state
  is handed to the store, and a row with a hash is restored.
\<close>

lemma save_states_to_db_binds:
  assumes "''save_torrent_limit_state'' \<in> set (db_attributes obj)"
    and "set (db_save_parameters obj) = set save_keywords"
  shows "save_states_to_db obj write d items =
           foldl (\<lambda>d (h, st). write d (save_state h st)) d items"
  using assms by (simp add: save_states_to_db_def py_getattr_def py_bind_keywords_def)

lemma restore_states_from_db_binds:
  assumes "''get_torrent_limit_states'' \<in> set (db_attributes obj)"
  shows "restore_states_from_db tn now obj (Some [s]) sts =
           (case restore_state tn now s of None \<Rightarrow> sts | Some st \<Rightarrow> sts(hash st \<mapsto> st))"
  using assms by (simp add: restore_states_from_db_def py_getattr_def)

text \<open>The loop body of the restore assigns no name: the restored state has the default.\<close>

lemma restore_state_name:
  "restore_state tn now s = Some st \<Longrightarrow> name st = []"
  by (auto simp: restore_state_def torrent_state_new_def split: option.splits)

text \<open>
  C5 says that a persisted record, restored and saved again, gives the same serialised
  record, every field preserved. With the object that the application passes to the
  engine no record is produced at all. \<open>_save_states_to_db\<close> on an engine that holds
  the example state, whose name is \<open>ubuntu.iso\<close>, leaves the store as it was, whatever
  the body of the method would write: the keyword call raises \<open>TypeError\<close>, which the
  loop swallows. \<open>_restore_states_from_db\<close> on a new engine restores no state,
  whatever rows the store holds: the lookup of \<open>get_torrent_limit_states\<close> raises
  \<open>AttributeError\<close>, which is swallowed by the \<open>return\<close>.
\<close>

theorem persistence_round_trip_lost:
  "name example_state = ''ubuntu.iso'' \<and>
   save_states_to_db database write d [(''abc'', example_state)] = d \<and>
   restore_states_from_db engine_tuning now database (Some [example_row]) Map.empty = Map.empty"
  by (simp add: example_state_def save_states_to_db_def restore_states_from_db_def
      database_get_torrent_limit_states database_save_torrent_limit_state)

end
